theory Spec2Isabelle
  imports Main
begin

section \<open>Python string operations used by the deployment modules\<close>

text \<open>
  Strings are \<open>char list\<close>. The helpers below are the \<open>str\<close> methods and the
  \<open>fnmatch\<close> matcher the source calls, on a POSIX host (\<open>os.sep\<close> is \<open>/\<close> and
  \<open>os.path.normcase\<close> is the identity).
\<close>

definition py_isspace :: "char \<Rightarrow> bool" where
  "py_isspace c = (of_char c \<in> {9, 10, 11, 12, 13, 28, 29, 30, 31, 32 :: nat})"

definition py_strip :: "string \<Rightarrow> string" where
  "py_strip s = rev (dropWhile py_isspace (rev (dropWhile py_isspace s)))"

definition py_startswith :: "string \<Rightarrow> string \<Rightarrow> bool" where
  "py_startswith s p = (take (length p) s = p)"

definition py_endswith :: "string \<Rightarrow> string \<Rightarrow> bool" where
  "py_endswith s p = (length p \<le> length s \<and> drop (length s - length p) s = p)"

text \<open>\<open>sub in s\<close> for strings: \<open>sub\<close> occurs in \<open>s\<close> as a contiguous run.\<close>

fun py_contains :: "string \<Rightarrow> string \<Rightarrow> bool" where
  "py_contains [] sub = (sub = [])"
| "py_contains (c # cs) sub = (py_startswith (c # cs) sub \<or> py_contains cs sub)"

text \<open>
  \<open>s.split(sep)\<close> for a non-empty separator: the pieces between the occurrences of
  \<open>sep\<close>, scanned from the left; \<open>acc\<close> is the piece being read, reversed.
  The source splits on \<open>/\<close> and on \<open>**\<close> only (Python raises on an empty separator).
\<close>

fun py_split_acc :: "string \<Rightarrow> string \<Rightarrow> string \<Rightarrow> string list" where
  "py_split_acc sep acc [] = [rev acc]"
| "py_split_acc sep acc (c # cs) =
     (if py_startswith (c # cs) sep
      then rev acc # py_split_acc sep [] (drop (length sep - 1) cs)
      else py_split_acc sep (c # acc) cs)"

definition py_split :: "string \<Rightarrow> string \<Rightarrow> string list" where
  "py_split s sep = py_split_acc sep [] s"

definition py_replace_char :: "char \<Rightarrow> char \<Rightarrow> string \<Rightarrow> string" where
  "py_replace_char old new s = map (\<lambda>c. if c = old then new else c) s"

definition py_lower :: "string \<Rightarrow> string" where
  "py_lower s = map (\<lambda>c. if 65 \<le> (of_char c :: nat) \<and> (of_char c :: nat) \<le> 90
                          then char_of (of_char c + (32 :: nat)) else c) s"

text \<open>\<open>str(n)\<close> for a non-negative integer, as the f-strings of the source print it.\<close>

fun string_of_nat :: "nat \<Rightarrow> string" where
  "string_of_nat n =
     (if n < 10 then [char_of (48 + n)]
      else string_of_nat (n div 10) @ [char_of (48 + n mod 10)])"

declare string_of_nat.simps [simp del]

subsection \<open>\<open>fnmatch.fnmatch\<close>\<close>

text \<open>
  \<open>fnmatch.translate\<close> turns a pattern into a regular expression that has to match the
  whole name: \<open>*\<close> is any run of characters (the path separator included), \<open>?\<close> is
  any one character, \<open>[seq]\<close> and \<open>[!seq]\<close> are character classes, and a \<open>[\<close> with no
  closing bracket stands for itself. The tokens below are that regular expression.
\<close>

datatype glob_token = Star | AnyChar | Lit char | CharClass bool string

text \<open>
  The closing bracket of a class, as \<open>translate\<close> looks for it: a leading \<open>!\<close> and
  then a leading \<open>]\<close> belong to the class; the result is the length of the class text.
\<close>

fun find_bracket :: "string \<Rightarrow> nat \<Rightarrow> nat option" where
  "find_bracket [] j = None"
| "find_bracket (c # cs) j = (if c = CHR '']'' then Some j else find_bracket cs (Suc j))"

definition class_end :: "string \<Rightarrow> nat option" where
  "class_end ps =
     (let j0 = (if py_startswith ps ''!'' then 1 else 0);
          j1 = (if py_startswith (drop j0 ps) '']'' then Suc j0 else j0)
      in find_bracket (drop j1 ps) j1)"

fun translate :: "string \<Rightarrow> glob_token list" where
  "translate [] = []"
| "translate (c # ps) =
     (if c = CHR ''*'' then Star # translate ps
      else if c = CHR ''?'' then AnyChar # translate ps
      else if c = CHR ''['' then
        (case class_end ps of
           None \<Rightarrow> Lit c # translate ps
         | Some j \<Rightarrow>
             (if py_startswith ps ''!''
              then CharClass True (drop 1 (take j ps)) # translate (drop (Suc j) ps)
              else CharClass False (take j ps) # translate (drop (Suc j) ps)))
      else Lit c # translate ps)"

text \<open>Membership in the text of a class: single characters and ranges \<open>a-z\<close>.\<close>

fun in_class :: "string \<Rightarrow> char \<Rightarrow> bool" where
  "in_class (a # m # b # rest) c =
     (if m = CHR ''-''
      then ((of_char a :: nat) \<le> of_char c \<and> (of_char c :: nat) \<le> of_char b) \<or> in_class rest c
      else a = c \<or> in_class (m # b # rest) c)"
| "in_class (a # rest) c = (a = c \<or> in_class rest c)"
| "in_class [] c = False"

fun glob_match :: "glob_token list \<Rightarrow> string \<Rightarrow> bool" where
  "glob_match [] s = (s = [])"
| "glob_match (Star # ts) [] = glob_match ts []"
| "glob_match (Star # ts) (c # s) = (glob_match ts (c # s) \<or> glob_match (Star # ts) s)"
| "glob_match (AnyChar # ts) [] = False"
| "glob_match (AnyChar # ts) (c # s) = glob_match ts s"
| "glob_match (Lit a # ts) [] = False"
| "glob_match (Lit a # ts) (c # s) = (a = c \<and> glob_match ts s)"
| "glob_match (CharClass neg cls # ts) [] = False"
| "glob_match (CharClass neg cls # ts) (c # s) = ((in_class cls c \<noteq> neg) \<and> glob_match ts s)"

definition fnmatch :: "string \<Rightarrow> string \<Rightarrow> bool" where
  "fnmatch name pat = glob_match (translate pat) name"

section \<open>ship.py: the bundling filter of \<open>create_app_bundle\<close>\<close>

text \<open>
  The \<open>.ebignore\<close> file is \<open>None\<close> when it does not exist and its list of lines
  otherwise. Each line is stripped; blank lines and \<open>#\<close> lines are skipped; a line
  starting with \<open>!\<close> is a negated pattern (kept without the \<open>!\<close>), any other line an
  exclusion pattern. The result is \<open>(patterns, negated_patterns)\<close>, both in file order.
\<close>

fun parse_ebignore_lines :: "string list \<Rightarrow> string list \<times> string list" where
  "parse_ebignore_lines [] = ([], [])"
| "parse_ebignore_lines (l # ls) =
     (let line = py_strip l; (patterns, negated_patterns) = parse_ebignore_lines ls
      in if line \<noteq> [] \<and> \<not> py_startswith line ''#''
         then (if py_startswith line ''!''
               then (patterns, drop 1 line # negated_patterns)
               else (line # patterns, negated_patterns))
         else (patterns, negated_patterns))"

definition parse_ebignore :: "string list option \<Rightarrow> string list \<times> string list" where
  "parse_ebignore ebignore =
     (case ebignore of None \<Rightarrow> ([], []) | Some ls \<Rightarrow> parse_ebignore_lines ls)"

text \<open>
  The loop over the exclusion patterns, for one file: the first pattern that matches
  marks the file excluded and ends the loop. A pattern without \<open>/\<close> applied to a path
  with \<open>/\<close> is tried on every path segment and on nothing else.
\<close>

fun excluded_by :: "string list \<Rightarrow> string \<Rightarrow> bool" where
  "excluded_by [] rel_path_normalized = False"
| "excluded_by (p # patterns) rel_path_normalized =
     (let pattern = (if py_endswith p ''/'' then p @ ''**'' else p)
      in if CHR ''/'' \<notin> set pattern \<and> CHR ''/'' \<in> set rel_path_normalized then
           (if list_ex (\<lambda>d. fnmatch d pattern) (py_split rel_path_normalized ''/'')
            then True
            else excluded_by patterns rel_path_normalized)
         else if fnmatch rel_path_normalized pattern then True
         else if py_contains pattern ''**'' then
           (let parts = py_split pattern ''**''
            in if (py_startswith pattern ''**'' \<and> py_endswith rel_path_normalized (parts ! 1))
                  \<or> (py_endswith pattern ''**'' \<and> py_startswith rel_path_normalized (parts ! 0))
               then True
               else excluded_by patterns rel_path_normalized)
         else excluded_by patterns rel_path_normalized)"

text \<open>The loop over the negated patterns, run only for a file already excluded.\<close>

definition reincluded_by :: "string list \<Rightarrow> string \<Rightarrow> bool" where
  "reincluded_by negated_patterns rel_path_normalized =
     list_ex (\<lambda>pattern. fnmatch rel_path_normalized pattern) negated_patterns"

definition file_in_bundle :: "string list \<Rightarrow> string list \<Rightarrow> string \<Rightarrow> bool" where
  "file_in_bundle patterns negated_patterns rel_path =
     (let rel_path_normalized = py_replace_char CHR ''/'' CHR ''/'' rel_path;
          excluded = excluded_by patterns rel_path_normalized;
          excluded = (if excluded then \<not> reincluded_by negated_patterns rel_path_normalized
                      else excluded)
      in \<not> excluded \<and> \<not> rel_path = ''.ebignore'')"

text \<open>
  \<open>create_app_bundle\<close>: \<open>files\<close> are the paths of the files under the project root,
  relative to it, in the order \<open>os.walk\<close> yields them. The result is the list of the
  archive's members; the \<open>file_count\<close> the source prints is its length.
\<close>

definition create_app_bundle :: "string list option \<Rightarrow> string list \<Rightarrow> string list" where
  "create_app_bundle ebignore files =
     (let (patterns, negated_patterns) = parse_ebignore ebignore
      in filter (file_in_bundle patterns negated_patterns) files)"


section \<open>The remote platform, the process and the client calls\<close>

text \<open>
  The modules talk to the hosting platform through SDK clients. The platform's resources
  are flat tables keyed by their identifiers, as the describe calls return them. The
  table \<open>rules\<close> holds the non-default rules of all listeners, each with the ARN of its
  listener; the default actions of a listener are kept under the listener's ARN in
  \<open>default_actions\<close> (the modules never read the \<open>DefaultActions\<close> key of a described
  listener, so the listener record does not repeat them). The process owns its
  environment variables, the answer typed at the secret prompt and the project name.
  Every client call, log line, prompt and sleep is appended to \<open>trace\<close>, in the order
  the code issues it.
\<close>

datatype error = DeploymentError string | ClientError string | KeyError string | IndexError

record environment =
  EnvironmentName :: string
  env_Status :: string
  env_deleted :: bool

record application_version =
  ApplicationName :: string
  VersionLabel :: string
  ver_Status :: string

record authenticate_oidc_config =
  Issuer :: string
  AuthorizationEndpoint :: string
  TokenEndpoint :: string
  UserInfoEndpoint :: string
  ClientId :: string
  ClientSecret :: "string option"
  SessionCookieName :: string
  SessionTimeout :: int
  Scope :: string
  OnUnauthenticatedRequest :: string

datatype action_config =
    AuthenticateOidcConfig authenticate_oidc_config
  | ForwardConfig string
  | FixedResponseConfig string string string
  | RedirectConfig string string string

text \<open>
  An action is its type-specific part and its \<open>Order\<close> key, when given.
  \<open>ForwardConfig\<close> carries the \<open>TargetGroupArn\<close>; \<open>FixedResponseConfig\<close> carries
  \<open>MessageBody\<close>, \<open>StatusCode\<close>, \<open>ContentType\<close>; \<open>RedirectConfig\<close> carries \<open>Protocol\<close>,
  \<open>Port\<close>, \<open>StatusCode\<close>.
\<close>

record action =
  act_config :: action_config
  act_Order :: "nat option"

fun action_Type :: "action \<Rightarrow> string" where
  "action_Type a =
     (case act_config a of
        AuthenticateOidcConfig c \<Rightarrow> ''authenticate-oidc''
      | ForwardConfig tg \<Rightarrow> ''forward''
      | FixedResponseConfig b s t \<Rightarrow> ''fixed-response''
      | RedirectConfig p q s \<Rightarrow> ''redirect'')"

record condition =
  cond_Field :: string
  cond_Values :: "string list"

record rule =
  RuleArn :: string
  rule_ListenerArn :: string
  Priority :: string
  Conditions :: "condition list"
  Actions :: "action list"
  IsDefault :: bool

record listener =
  ListenerArn :: string
  lis_LoadBalancerArn :: string
  Port :: nat
  Certificates :: "string list"

record load_balancer =
  LoadBalancerArn :: string
  lb_Type :: string
  lb_Tags :: "(string \<times> string) list"

record target_group =
  TargetGroupArn :: string
  tg_LoadBalancerArns :: "string list"

record option_setting =
  Namespace :: string
  OptionName :: string
  opt_Value :: string

record platform =
  environments :: "environment list"
  application_versions :: "application_version list"
  load_balancers :: "load_balancer list"
  listeners :: "listener list"
  rules :: "rule list"
  default_actions :: "string \<Rightarrow> action list"
  target_groups :: "target_group list"
  certificates :: "(string \<times> string) list"
  next_rule_id :: nat

datatype api_call =
    DescribeEnvironments "string list" bool
  | UpdateEnvironment string string "option_setting list"
  | CreateEnvironment string string string string "option_setting list"
  | DescribeApplicationVersions string "string list"
  | DescribeLoadBalancers
  | DescribeTags "string list"
  | DescribeListenersOf string
  | DescribeListeners "string list"
  | DescribeCertificate string
  | DescribeTargetGroups string
  | DescribeRules string
  | DeleteRule string
  | ModifyListener string "action list"
  | CreateRule string nat "condition list" "action list"

datatype log_level = DEBUG | INFO | ERROR | STDOUT

datatype event =
    Call api_call
  | Log log_level string
  | Prompt string
  | Sleep nat
  | EnsureEnvInGitignore

record world =
  remote :: platform
  os_environ :: "string \<Rightarrow> string option"
  getpass_input :: string
  project_name_of :: string
  trace :: "event list"

subsection \<open>Computations that may raise\<close>

text \<open>
  A computation takes the world and gives back either the exception it raised or its
  value, with the world as it left it.
\<close>

type_synonym 'a io = "world \<Rightarrow> (error + 'a) \<times> world"

definition return :: "'a \<Rightarrow> 'a io" where
  "return x w = (Inr x, w)"

definition raise :: "error \<Rightarrow> 'a io" where
  "raise e w = (Inl e, w)"

definition bind_io :: "'a io \<Rightarrow> ('a \<Rightarrow> 'b io) \<Rightarrow> 'b io" where
  "bind_io m f w = (case m w of (Inl e, w') \<Rightarrow> (Inl e, w') | (Inr x, w') \<Rightarrow> f x w')"

definition emit :: "event \<Rightarrow> unit io" where
  "emit ev w = (Inr (), w\<lparr>trace := trace w @ [ev]\<rparr>)"

definition logger_info :: "string \<Rightarrow> unit io" where
  "logger_info msg = emit (Log INFO msg)"

definition logger_error :: "string \<Rightarrow> unit io" where
  "logger_error msg = emit (Log ERROR msg)"

definition logger_debug :: "string \<Rightarrow> unit io" where
  "logger_debug msg = emit (Log DEBUG msg)"

definition print :: "string \<Rightarrow> unit io" where
  "print msg = emit (Log STDOUT msg)"

text \<open>\<open>xs[0]\<close>: raises on an empty list.\<close>

definition first_item :: "'a list \<Rightarrow> 'a io" where
  "first_item xs = (case xs of [] \<Rightarrow> raise IndexError | x # _ \<Rightarrow> return x)"

text \<open>Truthiness of an \<open>Optional[str]\<close>: \<open>None\<close> and the empty string are false.\<close>

definition truthy :: "string option \<Rightarrow> bool" where
  "truthy s = (case s of None \<Rightarrow> False | Some v \<Rightarrow> v \<noteq> [])"

text \<open>
  Modelled from the spec: the \<open>aws_handler\<close> decorator of the absent \<open>support\<close> and
  \<open>common\<close> modules. Section 7 has remote failures wrapped uniformly into the
  deployment's own error; a value returned by the body and a \<open>DeploymentError\<close> raised
  by it pass through unchanged.
\<close>

definition aws_handler :: "'a io \<Rightarrow> 'a io" where
  "aws_handler body w =
     (case body w of
        (Inl (ClientError c), w') \<Rightarrow> (Inl (DeploymentError c), w')
      | r \<Rightarrow> r)"

text \<open>
  The tag that links a load balancer to its environment: key
  \<open>elasticbeanstalk:environment-name\<close>, value the environment's name.
\<close>

definition env_tag :: "string \<Rightarrow> (string \<times> string) \<Rightarrow> bool" where
  "env_tag env_name = (\<lambda>(k, v). k = ''elasticbeanstalk:environment-name'' \<and> v = env_name)"

subsection \<open>The SDK client calls\<close>

text \<open>
  What the platform answers to each call the modules issue. A describe call reads the
  tables and never returns a client secret; a call that names a resource the platform
  does not have raises the client's error.
\<close>

definition redact_action :: "action \<Rightarrow> action" where
  "redact_action a =
     (case act_config a of
        AuthenticateOidcConfig c \<Rightarrow> a\<lparr>act_config := AuthenticateOidcConfig (c\<lparr>ClientSecret := None\<rparr>)\<rparr>
      | _ \<Rightarrow> a)"

definition describe_environments :: "string list \<Rightarrow> bool \<Rightarrow> environment list io" where
  "describe_environments names include_deleted =
     bind_io (emit (Call (DescribeEnvironments names include_deleted))) (\<lambda>_ w.
       (Inr (filter (\<lambda>e. EnvironmentName e \<in> set names \<and> (include_deleted \<or> \<not> env_deleted e))
                    (environments (remote w))), w))"


definition describe_load_balancers :: "load_balancer list io" where
  "describe_load_balancers =
     bind_io (emit (Call DescribeLoadBalancers)) (\<lambda>_ w. (Inr (load_balancers (remote w)), w))"

definition describe_tags :: "string list \<Rightarrow> (string \<times> string) list list io" where
  "describe_tags arns =
     bind_io (emit (Call (DescribeTags arns))) (\<lambda>_ w.
       if \<forall>a \<in> set arns. a \<in> LoadBalancerArn ` set (load_balancers (remote w))
       then (Inr (map (\<lambda>a. case find (\<lambda>lb. LoadBalancerArn lb = a) (load_balancers (remote w)) of
                              Some lb \<Rightarrow> lb_Tags lb | None \<Rightarrow> []) arns), w)
       else (Inl (ClientError ''LoadBalancerNotFound''), w))"

definition describe_listeners_of :: "string \<Rightarrow> listener list io" where
  "describe_listeners_of lb_arn =
     bind_io (emit (Call (DescribeListenersOf lb_arn))) (\<lambda>_ w.
       if lb_arn \<in> LoadBalancerArn ` set (load_balancers (remote w))
       then (Inr (filter (\<lambda>l. lis_LoadBalancerArn l = lb_arn) (listeners (remote w))), w)
       else (Inl (ClientError ''LoadBalancerNotFound''), w))"

definition describe_listeners :: "string list \<Rightarrow> listener list io" where
  "describe_listeners arns =
     bind_io (emit (Call (DescribeListeners arns))) (\<lambda>_ w.
       if \<forall>a \<in> set arns. a \<in> ListenerArn ` set (listeners (remote w))
       then (Inr (filter (\<lambda>l. ListenerArn l \<in> set arns) (listeners (remote w))), w)
       else (Inl (ClientError ''ListenerNotFound''), w))"

definition describe_certificate :: "string \<Rightarrow> string io" where
  "describe_certificate cert_arn =
     bind_io (emit (Call (DescribeCertificate cert_arn))) (\<lambda>_ w.
       case map_of (certificates (remote w)) cert_arn of
         Some domain_name \<Rightarrow> (Inr domain_name, w)
       | None \<Rightarrow> (Inl (ClientError ''ResourceNotFoundException''), w))"

definition describe_target_groups :: "string \<Rightarrow> target_group list io" where
  "describe_target_groups lb_arn =
     bind_io (emit (Call (DescribeTargetGroups lb_arn))) (\<lambda>_ w.
       if lb_arn \<in> LoadBalancerArn ` set (load_balancers (remote w))
       then (Inr (filter (\<lambda>t. lb_arn \<in> set (tg_LoadBalancerArns t)) (target_groups (remote w))), w)
       else (Inl (ClientError ''LoadBalancerNotFound''), w))"

text \<open>
  The rules of a listener as \<open>describe_rules\<close> lists them: its stored rules, which are
  its non-default ones, and then its default rule, whose actions are the listener's
  default actions.
\<close>

definition default_rule :: "string \<Rightarrow> action list \<Rightarrow> rule" where
  "default_rule listener_arn acts =
     \<lparr>RuleArn = listener_arn @ ''/default'', rule_ListenerArn = listener_arn,
      Priority = ''default'', Conditions = [], Actions = acts, IsDefault = True\<rparr>"

definition rules_of :: "platform \<Rightarrow> string \<Rightarrow> rule list" where
  "rules_of p listener_arn = filter (\<lambda>r. rule_ListenerArn r = listener_arn) (rules p)"

definition describe_rules :: "string \<Rightarrow> rule list io" where
  "describe_rules listener_arn =
     bind_io (emit (Call (DescribeRules listener_arn))) (\<lambda>_ w.
       if listener_arn \<in> ListenerArn ` set (listeners (remote w))
       then (Inr (map (\<lambda>r. r\<lparr>Actions := map redact_action (Actions r)\<rparr>)
                      (map (\<lambda>r. r\<lparr>IsDefault := False\<rparr>) (rules_of (remote w) listener_arn)
                       @ [default_rule listener_arn (default_actions (remote w) listener_arn)])), w)
       else (Inl (ClientError ''ListenerNotFound''), w))"

definition delete_rule :: "string \<Rightarrow> unit io" where
  "delete_rule rule_arn =
     bind_io (emit (Call (DeleteRule rule_arn))) (\<lambda>_ w.
       if rule_arn \<in> RuleArn ` set (rules (remote w))
       then (Inr (), w\<lparr>remote := (remote w)\<lparr>rules := filter (\<lambda>r. RuleArn r \<noteq> rule_arn)
                                                              (rules (remote w))\<rparr>\<rparr>)
       else (Inl (ClientError ''RuleNotFound''), w))"

definition modify_listener :: "string \<Rightarrow> action list \<Rightarrow> unit io" where
  "modify_listener listener_arn acts =
     bind_io (emit (Call (ModifyListener listener_arn acts))) (\<lambda>_ w.
       if listener_arn \<in> ListenerArn ` set (listeners (remote w))
       then (Inr (), w\<lparr>remote := (remote w)\<lparr>default_actions :=
               (default_actions (remote w))(listener_arn := acts)\<rparr>\<rparr>)
       else (Inl (ClientError ''ListenerNotFound''), w))"

definition create_rule :: "string \<Rightarrow> nat \<Rightarrow> condition list \<Rightarrow> action list \<Rightarrow> unit io" where
  "create_rule listener_arn priority conditions actions =
     bind_io (emit (Call (CreateRule listener_arn priority conditions actions))) (\<lambda>_ w.
       if listener_arn \<notin> ListenerArn ` set (listeners (remote w))
       then (Inl (ClientError ''ListenerNotFound''), w)
       else if string_of_nat priority \<in> Priority ` set (rules_of (remote w) listener_arn)
       then (Inl (ClientError ''PriorityInUse''), w)
       else (Inr (), w\<lparr>remote := (remote w)\<lparr>
               rules := rules (remote w) @
                 [\<lparr>RuleArn = listener_arn @ ''/rule/'' @ string_of_nat (next_rule_id (remote w)),
                   rule_ListenerArn = listener_arn, Priority = string_of_nat priority,
                   Conditions = conditions, Actions = actions, IsDefault = False\<rparr>],
               next_rule_id := Suc (next_rule_id (remote w))\<rparr>\<rparr>))"

text \<open>
  The environment manager works on its own: what it does to the platform when asked to
  update or create an environment, and what happens on the platform while the caller
  sleeps, is not in the modules' hands. The \<open>eb_client\<close> argument of the source stands
  for it: it gives the platform's reaction to the two mutating calls (or the client
  error they raise) and the platform's progress over a number of seconds.
\<close>

record eb_client =
  on_update_environment :: "string \<Rightarrow> string \<Rightarrow> option_setting list \<Rightarrow> platform \<Rightarrow> error + platform"
  on_create_environment ::
    "string \<Rightarrow> string \<Rightarrow> string \<Rightarrow> string \<Rightarrow> option_setting list \<Rightarrow> platform \<Rightarrow> error + platform"
  elapse :: "nat \<Rightarrow> platform \<Rightarrow> platform"

definition update_environment :: "eb_client \<Rightarrow> string \<Rightarrow> string \<Rightarrow> option_setting list \<Rightarrow> unit io" where
  "update_environment eb env_name version settings =
     bind_io (emit (Call (UpdateEnvironment env_name version settings))) (\<lambda>_ w.
       case on_update_environment eb env_name version settings (remote w) of
         Inl e \<Rightarrow> (Inl e, w)
       | Inr p \<Rightarrow> (Inr (), w\<lparr>remote := p\<rparr>))"

definition create_environment ::
  "eb_client \<Rightarrow> string \<Rightarrow> string \<Rightarrow> string \<Rightarrow> string \<Rightarrow> option_setting list \<Rightarrow> unit io" where
  "create_environment eb app_name env_name version stack settings =
     bind_io (emit (Call (CreateEnvironment app_name env_name version stack settings))) (\<lambda>_ w.
       case on_create_environment eb app_name env_name version stack settings (remote w) of
         Inl e \<Rightarrow> (Inl e, w)
       | Inr p \<Rightarrow> (Inr (), w\<lparr>remote := p\<rparr>))"

definition time_sleep :: "eb_client \<Rightarrow> nat \<Rightarrow> unit io" where
  "time_sleep eb secs w =
     (Inr (), w\<lparr>remote := elapse eb secs (remote w), trace := trace w @ [Sleep secs]\<rparr>)"

section \<open>The configuration document\<close>

text \<open>
  The loaded configuration, with the keys the modelled functions read. The \<open>oidc\<close>
  section may be absent (the code tests for it); where it is present it has its
  sub-keys, as the configuration source supplies them.
\<close>

record oidc_section =
  oidc_client_id :: string
  oidc_issuer :: string
  endpoints_authorization :: string
  endpoints_token :: string
  endpoints_userinfo :: string
  session_cookie_name :: string
  session_timeout :: int
  session_scope :: string

record config =
  application_name :: string
  application_environment :: string
  aws_platform :: string
  instance_elb_type :: string
  oidc :: "oidc_section option"

text \<open>\<open>for x in xs: body(x)\<close>, stopping at the first exception.\<close>

fun for_each :: "'a list \<Rightarrow> ('a \<Rightarrow> unit io) \<Rightarrow> unit io" where
  "for_each [] body = return ()"
| "for_each (x # xs) body = bind_io (body x) (\<lambda>_. for_each xs body)"

text \<open>\<open>os.environ.get(name, default)\<close>.\<close>

definition environ_get :: "world \<Rightarrow> string \<Rightarrow> string \<Rightarrow> string" where
  "environ_get w name dflt = (case os_environ w name of Some v \<Rightarrow> v | None \<Rightarrow> dflt)"

section \<open>shield.py\<close>

subsection \<open>\<open>check_oidc_vars\<close> and \<open>validate_oidc_config\<close>\<close>

definition required_vars :: "(string \<times> string) list" where
  "required_vars =
     [(''client_id'', ''LB_OIDC_CLIENT_ID''),
      (''client_secret'', ''LB_OIDC_CLIENT_SECRET''),
      (''issuer'', ''LB_OIDC_ISSUER''),
      (''endpoints.authorization'', ''LB_OIDC_AUTH_ENDPOINT''),
      (''endpoints.token'', ''LB_OIDC_TOKEN_ENDPOINT''),
      (''endpoints.userinfo'', ''LB_OIDC_USERINFO_ENDPOINT'')]"

text \<open>The required variables other than \<open>LB_OIDC_CLIENT_ID\<close>.\<close>

definition other_required_vars :: "string list" where
  "other_required_vars =
     [''LB_OIDC_CLIENT_SECRET'', ''LB_OIDC_ISSUER'', ''LB_OIDC_AUTH_ENDPOINT'',
      ''LB_OIDC_TOKEN_ENDPOINT'', ''LB_OIDC_USERINFO_ENDPOINT'']"

text \<open>
  The loop that maps old variable names to new ones: \<open>var_mapping\<close> is the table
  \<open>EnvironmentManager.get_old_to_new_env_mapping()\<close> returns, in iteration order (the
  table itself is not among the sources, so it is an argument).
\<close>

definition map_old_name :: "string \<times> string \<Rightarrow> unit io" where
  "map_old_name entry w =
     (case entry of (old_name, new_name) \<Rightarrow>
        (case os_environ w old_name of
           Some v \<Rightarrow>
             (if os_environ w new_name = None
              then logger_debug (''Mapped '' @ old_name @ '' to '' @ new_name @ '' in environment'')
                     (w\<lparr>os_environ := (os_environ w)(new_name \<mapsto> v)\<rparr>)
              else (Inr (), w))
         | None \<Rightarrow> (Inr (), w)))"

text \<open>\<open>env_var not in os.environ or not os.environ[env_var]\<close>.\<close>

definition var_missing :: "world \<Rightarrow> string \<Rightarrow> bool" where
  "var_missing w env_var = (case os_environ w env_var of None \<Rightarrow> True | Some v \<Rightarrow> v = [])"

definition find_missing :: "world \<Rightarrow> string list" where
  "find_missing w = map snd (filter (\<lambda>(config_path, env_var). var_missing w env_var) required_vars)"

definition ensure_env_in_gitignore :: "unit io" where
  "ensure_env_in_gitignore = emit EnsureEnvInGitignore"

definition check_oidc_vars :: "(string \<times> string) list \<Rightarrow> config \<Rightarrow> bool io" where
  "check_oidc_vars var_mapping config =
     bind_io (for_each var_mapping map_old_name) (\<lambda>_ w.
       (let missing = find_missing w
        in if missing = [] then return True
           else
             bind_io (logger_error ''Missing required OIDC configuration variables:'') (\<lambda>_.
             bind_io (for_each missing (\<lambda>var. logger_error (''  - '' @ var))) (\<lambda>_.
             bind_io (logger_info (CHR 0x0A # ''Please set these variables in your .env file or environment.'')) (\<lambda>_.
             bind_io (logger_info ''Example .env file format:'') (\<lambda>_.
             bind_io (logger_info ''----------------------------------------------------'') (\<lambda>_.
             bind_io (for_each (filter (\<lambda>(config_path, env_var). env_var \<in> set missing) required_vars)
                        (\<lambda>(config_path, env_var). logger_info (env_var @ ''=your-value-here''))) (\<lambda>_.
             bind_io (logger_info ''----------------------------------------------------'') (\<lambda>_.
             bind_io ensure_env_in_gitignore (\<lambda>_.
             return False))))))))) w)"

definition validate_oidc_config :: "(string \<times> string) list \<Rightarrow> config \<Rightarrow> bool io" where
  "validate_oidc_config var_mapping config =
     (if oidc config = None then
        bind_io (logger_error ''Missing 'oidc' section in configuration.'') (\<lambda>_. return False)
      else
        bind_io (check_oidc_vars var_mapping config) (\<lambda>ok.
          if \<not> ok then return False
          else bind_io (logger_info ''OIDC configuration validated successfully'') (\<lambda>_.
               return True)))"

subsection \<open>The resolvers\<close>

definition py_replace_star :: "string \<Rightarrow> string \<Rightarrow> string" where
  "py_replace_star s new = concat (map (\<lambda>c. if c = CHR ''*'' then new else [c]) s)"

definition get_domain_from_listener :: "string \<Rightarrow> string io" where
  "get_domain_from_listener listener_arn =
     aws_handler (
       bind_io (describe_listeners [listener_arn]) (\<lambda>ls.
       bind_io (first_item ls) (\<lambda>listener.
       bind_io (first_item (Certificates listener)) (\<lambda>cert_arn.
       bind_io (describe_certificate cert_arn) (\<lambda>domain_name w.
         return (py_replace_star domain_name (project_name_of w)) w)))))"

text \<open>
  The loop of \<open>find_listener_arn\<close> over the load balancers: the first one of type
  \<open>application\<close> that carries the environment-name tag.
\<close>

fun find_env_lb :: "string \<Rightarrow> load_balancer list \<Rightarrow> load_balancer option io" where
  "find_env_lb env_name [] = return None"
| "find_env_lb env_name (lb # lbs) =
     (if py_lower (lb_Type lb) \<noteq> ''application'' then find_env_lb env_name lbs
      else
        bind_io (describe_tags [LoadBalancerArn lb]) (\<lambda>tag_descriptions.
        bind_io (first_item tag_descriptions) (\<lambda>tags.
          if list_ex (env_tag env_name) tags
          then return (Some lb)
          else find_env_lb env_name lbs)))"

definition find_listener_arn :: "string \<Rightarrow> (string \<times> string) io" where
  "find_listener_arn env_name =
     aws_handler (
       bind_io (logger_info ''Finding HTTPS listener'') (\<lambda>_.
       bind_io (describe_environments [env_name] False) (\<lambda>envs.
         if envs = [] then
           bind_io (logger_info ''environment not found'') (\<lambda>_.
           raise (DeploymentError (''Environment '' @ env_name @ '' not found'')))
         else
           bind_io describe_load_balancers (\<lambda>lbs.
           bind_io (find_env_lb env_name lbs) (\<lambda>env_lb.
             case env_lb of
               None \<Rightarrow>
                 bind_io (logger_info ''load balancer not found'') (\<lambda>_.
                 raise (DeploymentError (''No load balancer found for environment '' @ env_name)))
             | Some lb \<Rightarrow>
                 bind_io (describe_listeners_of (LoadBalancerArn lb)) (\<lambda>ls.
                   case find (\<lambda>l. Port l = 443) ls of
                     None \<Rightarrow>
                       bind_io (logger_info ''HTTPS not configured'') (\<lambda>_.
                       raise (DeploymentError
                                ''HTTPS listener not found. Run 'secure' command first.''))
                   | Some https_listener \<Rightarrow>
                       return (ListenerArn https_listener, LoadBalancerArn lb)))))))"

definition find_target_group_arn :: "string \<Rightarrow> string io" where
  "find_target_group_arn load_balancer_arn =
     aws_handler (
       bind_io (logger_info ''Finding target group'') (\<lambda>_.
       bind_io (describe_target_groups load_balancer_arn) (\<lambda>tgs.
         case tgs of
           [] \<Rightarrow>
             bind_io (logger_info ''not found'') (\<lambda>_.
             raise (DeploymentError ''No target groups found for load balancer''))
         | tg # _ \<Rightarrow> return (TargetGroupArn tg))))"

subsection \<open>\<open>get_client_secret\<close> and \<open>configure_oidc_auth\<close>\<close>

definition get_client_secret :: "string option \<Rightarrow> string io" where
  "get_client_secret secret w =
     (case (if truthy secret then secret else None) of
        Some s \<Rightarrow> (Inr s, w)
      | None \<Rightarrow>
          if truthy (os_environ w ''LB_OIDC_CLIENT_SECRET'')
          then (Inr (environ_get w ''LB_OIDC_CLIENT_SECRET'' []), w)
          else if truthy (os_environ w ''OIDC_CLIENT_SECRET'')
          then (Inr (environ_get w ''OIDC_CLIENT_SECRET'' []), w)
          else bind_io (emit (Prompt (CHR 0x0A # ''Please enter your OIDC client secret: '')))
                 (\<lambda>_ w'. (Inr (getpass_input w'), w')) w)"

text \<open>The loop that removes the non-default rules, counting them.\<close>

fun remove_rules :: "rule list \<Rightarrow> nat \<Rightarrow> nat io" where
  "remove_rules [] rules_removed = return rules_removed"
| "remove_rules (rule # rest) rules_removed =
     (if \<not> IsDefault rule
      then bind_io (delete_rule (RuleArn rule)) (\<lambda>_. remove_rules rest (Suc rules_removed))
      else remove_rules rest rules_removed)"

text \<open>
  The action chain of the authentication rule: the authenticate-oidc action with
  \<open>Order\<close> 1 and the forward to the target group with \<open>Order\<close> 2.
\<close>

definition auth_rule_actions :: "authenticate_oidc_config \<Rightarrow> string \<Rightarrow> action list" where
  "auth_rule_actions auth_config target_group_arn =
     [\<lparr>act_config = AuthenticateOidcConfig auth_config, act_Order = Some 1\<rparr>,
      \<lparr>act_config = ForwardConfig target_group_arn, act_Order = Some 2\<rparr>]"

definition deny_action :: action where
  "deny_action =
     \<lparr>act_config = FixedResponseConfig ''Unauthorized Access'' ''503'' ''text/plain'',
      act_Order = None\<rparr>"

definition redirect_action :: action where
  "redirect_action =
     \<lparr>act_config = RedirectConfig ''HTTPS'' ''443'' ''HTTP_301'', act_Order = None\<rparr>"

definition all_paths :: "condition list" where
  "all_paths = [\<lparr>cond_Field = ''path-pattern'', cond_Values = [''/*'']\<rparr>]"

text \<open>
  \<open>configure_oidc_auth\<close> is modelled in two halves. \<open>apply_oidc_rules\<close> is the second
  half, from the comment "Clean existing rules" to the end: it runs once the listener,
  the domain and the target group are resolved, with the authenticate-oidc
  configuration built from \<open>oidc_config\<close>.
\<close>

definition apply_oidc_rules ::
  "string \<Rightarrow> string \<Rightarrow> string \<Rightarrow> authenticate_oidc_config \<Rightarrow> string \<Rightarrow> unit io" where
  "apply_oidc_rules listener_arn load_balancer_arn target_group_arn auth_config domain =
     bind_io (logger_info ''Removing existing listener rules'') (\<lambda>_.
     bind_io (describe_rules listener_arn) (\<lambda>existing.
     bind_io (remove_rules existing 0) (\<lambda>rules_removed.
     bind_io (if rules_removed > 0
              then logger_info (''Removed '' @ string_of_nat rules_removed @ '' rules'')
              else logger_info ''No rules to remove'') (\<lambda>_.
     bind_io (logger_info ''Configuring OIDC authentication'') (\<lambda>_.
     bind_io (logger_info ''Setting default listener action to deny unauthorized access'') (\<lambda>_.
     bind_io (modify_listener listener_arn [deny_action]) (\<lambda>_.
     bind_io (logger_info ''Creating authentication rule'') (\<lambda>_.
     bind_io (create_rule listener_arn 1 all_paths
                (auth_rule_actions auth_config target_group_arn)) (\<lambda>_.
     bind_io (logger_info ''Configuring HTTP to HTTPS redirect'') (\<lambda>_.
     bind_io (describe_listeners_of load_balancer_arn) (\<lambda>ls.
     bind_io (case find (\<lambda>l. Port l = 80) ls of
                Some http_listener \<Rightarrow>
                  modify_listener (ListenerArn http_listener) [redirect_action]
              | None \<Rightarrow> logger_info ''HTTP listener not found'') (\<lambda>_.
     logger_info (''OIDC authentication successfully configured for https://''
                  @ domain)))))))))))))"

text \<open>
  The \<open>oidc_config\<close> dictionary of \<open>configure_oidc_auth\<close>, as the authenticate-oidc
  configuration it becomes: environment variables take priority over the values of the
  configuration file, the session values come from the file.
\<close>

definition oidc_auth_config :: "world \<Rightarrow> oidc_section \<Rightarrow> string \<Rightarrow> authenticate_oidc_config" where
  "oidc_auth_config w oc secret =
     \<lparr>Issuer = environ_get w ''LB_OIDC_ISSUER'' (oidc_issuer oc),
      AuthorizationEndpoint = environ_get w ''LB_OIDC_AUTH_ENDPOINT'' (endpoints_authorization oc),
      TokenEndpoint = environ_get w ''LB_OIDC_TOKEN_ENDPOINT'' (endpoints_token oc),
      UserInfoEndpoint = environ_get w ''LB_OIDC_USERINFO_ENDPOINT'' (endpoints_userinfo oc),
      ClientId = environ_get w ''LB_OIDC_CLIENT_ID'' (oidc_client_id oc),
      ClientSecret = Some secret,
      SessionCookieName = session_cookie_name oc,
      SessionTimeout = session_timeout oc,
      Scope = session_scope oc,
      OnUnauthenticatedRequest = ''authenticate''\<rparr>"

text \<open>
  The client secret the dictionary starts with: the argument if it is given and not
  empty, else the variable \<open>LB_OIDC_CLIENT_SECRET\<close>, else the empty string.
\<close>

definition initial_client_secret :: "world \<Rightarrow> string option \<Rightarrow> string" where
  "initial_client_secret w client_secret =
     (if truthy client_secret then case_option [] id client_secret
      else environ_get w ''LB_OIDC_CLIENT_SECRET'' [])"

text \<open>
  The first half of \<open>configure_oidc_auth\<close>, up to the comment "Clean existing rules":
  it builds \<open>oidc_config\<close>, obtains the client secret and resolves the listener, the
  domain and the target group. It hands the second half the authenticate-oidc
  configuration, the listener ARN, the load balancer ARN, the target group ARN and the
  domain.
\<close>

definition resolve_oidc_target ::
  "config \<Rightarrow> string option
   \<Rightarrow> (authenticate_oidc_config \<times> string \<times> string \<times> string \<times> string) io" where
  "resolve_oidc_target config client_secret w0 =
     (let env_name = application_environment config
      in case oidc config of
           None \<Rightarrow> raise (KeyError ''oidc'') w0
         | Some oc \<Rightarrow>
             bind_io (logger_info (''Configuring OIDC authentication for '' @ env_name)) (\<lambda>_.
             bind_io (if initial_client_secret w0 client_secret = []
                      then get_client_secret None
                      else return (initial_client_secret w0 client_secret)) (\<lambda>secret.
               if secret = [] then raise (DeploymentError ''OIDC client secret is required'')
               else
                 bind_io (find_listener_arn env_name) (\<lambda>(listener_arn, load_balancer_arn).
                   if listener_arn = []
                   then raise (DeploymentError ''Could not find HTTPS listener'')
                   else
                     bind_io (get_domain_from_listener listener_arn) (\<lambda>domain.
                     bind_io (find_target_group_arn load_balancer_arn) (\<lambda>target_group_arn.
                       return (oidc_auth_config w0 oc secret, listener_arn,
                               load_balancer_arn, target_group_arn, domain)))))) w0)"

definition configure_oidc_auth :: "config \<Rightarrow> string option \<Rightarrow> unit io" where
  "configure_oidc_auth config client_secret =
     aws_handler (
       bind_io (resolve_oidc_target config client_secret)
         (\<lambda>(auth_config, listener_arn, load_balancer_arn, target_group_arn, domain).
            apply_oidc_rules listener_arn load_balancer_arn target_group_arn auth_config domain))"

section \<open>ship.py\<close>

subsection \<open>Polling: a result within a number of polls\<close>

text \<open>
  The waiting loops of the source have no timeout. A waiting function is run for at most
  \<open>fuel\<close> polls: the result is \<open>None\<close> when the loop is still waiting after that many
  polls, \<open>Some (Inl e)\<close> when it raised and \<open>Some (Inr x)\<close> when it returned. The world
  is the one the loop has reached in each case.
\<close>

type_synonym 'a polled = "world \<Rightarrow> (error + 'a) option \<times> world"

definition finished :: "'a io \<Rightarrow> 'a polled" where
  "finished m w = (case m w of (r, w') \<Rightarrow> (Some r, w'))"

subsection \<open>\<open>wait_for_version\<close>\<close>



text \<open>
  The status the platform holds for a version label of an application: the \<open>Status\<close>
  of the first version \<open>describe_application_versions\<close> would list for the label, or
  \<open>None\<close> when it would list none.
\<close>

definition version_status :: "world \<Rightarrow> string \<Rightarrow> string \<Rightarrow> string option" where
  "version_status w app_name version =
     (case filter (\<lambda>v. ApplicationName v = app_name \<and> VersionLabel v = version)
                  (application_versions (remote w)) of
        [] \<Rightarrow> None | v # _ \<Rightarrow> Some (ver_Status v))"

subsection \<open>The functions of the \<open>common\<close> module\<close>

text \<open>
  The \<open>common\<close> module is not among the sources. What \<open>ship.py\<close> takes from it is
  modelled from the specification; the three things the specification leaves open are
  arguments: the option settings computed from the configuration, the environment
  statuses that count as a terminal failure, and the polling interval.
\<close>

record common_module =
  get_env_settings :: "config \<Rightarrow> option_setting list"
  terminal_failure :: "string \<Rightarrow> bool"
  poll_interval :: nat

text \<open>
  Modelled from the spec: \<open>common.find_environment_load_balancer\<close>, the Resource
  Resolver of section 4.1. Given an environment name it returns the load balancer
  tagged to that environment, or "not found" (\<open>None\<close>, not an error) if the environment
  or the balancer does not exist.
\<close>

fun find_tagged_lb :: "string \<Rightarrow> load_balancer list \<Rightarrow> string option io" where
  "find_tagged_lb env_name [] = return None"
| "find_tagged_lb env_name (lb # lbs) =
     bind_io (describe_tags [LoadBalancerArn lb]) (\<lambda>tag_descriptions.
     bind_io (first_item tag_descriptions) (\<lambda>tags.
       if list_ex (env_tag env_name) tags
       then return (Some (LoadBalancerArn lb))
       else find_tagged_lb env_name lbs))"

definition find_environment_load_balancer :: "string \<Rightarrow> string option io" where
  "find_environment_load_balancer env_name =
     bind_io (describe_environments [env_name] False) (\<lambda>envs.
       if envs = [] then return None
       else bind_io describe_load_balancers (\<lambda>lbs. find_tagged_lb env_name lbs))"

text \<open>
  Modelled from the spec: \<open>common.preserve_https_config\<close>, the snapshot of section 4.2.
  It reads the authenticate-oidc rule configuration of the load balancer's HTTPS
  listener (port 443) and captures it as it is described, that is without the secret;
  there is nothing to capture when the listener or such a rule is absent.
\<close>

fun oidc_config_of :: "action list \<Rightarrow> authenticate_oidc_config option" where
  "oidc_config_of [] = None"
| "oidc_config_of (a # as) =
     (case act_config a of AuthenticateOidcConfig c \<Rightarrow> Some c | _ \<Rightarrow> oidc_config_of as)"

definition preserve_https_config :: "string \<Rightarrow> string \<Rightarrow> authenticate_oidc_config option io" where
  "preserve_https_config lb_arn project_name =
     bind_io (describe_listeners_of lb_arn) (\<lambda>ls.
       case find (\<lambda>l. Port l = 443) ls of
         None \<Rightarrow> return None
       | Some https_listener \<Rightarrow>
           bind_io (describe_rules (ListenerArn https_listener)) (\<lambda>rs.
             return (oidc_config_of (concat (map Actions rs)))))"

text \<open>
  Modelled from the spec: \<open>common.restore_https_config\<close>, the restore of section 4.2.
  It re-applies the captured configuration to the HTTPS listener of the load balancer,
  which it resolves again, by the delete-then-recreate rule policy of section 4.4:
  every non-default rule of the listener is deleted and a single rule is created at
  priority 1 for all paths, authenticating with the captured configuration and then
  forwarding to the listener's target group. The captured configuration has no secret
  and the specification leaves open where restore obtains one; the rule is created
  from the configuration as captured. The loop \<open>remove_rules\<close>, the condition
  \<open>all_paths\<close> and the action chain \<open>auth_rule_actions\<close> are those of section 4.4, as
  \<open>configure_oidc_auth\<close> has them.
\<close>

definition restore_https_config :: "string \<Rightarrow> authenticate_oidc_config \<Rightarrow> string \<Rightarrow> unit io" where
  "restore_https_config lb_arn https_config project_name =
     bind_io (describe_listeners_of lb_arn) (\<lambda>ls.
       case find (\<lambda>l. Port l = 443) ls of
         None \<Rightarrow> raise (DeploymentError ''HTTPS listener not found'')
       | Some https_listener \<Rightarrow>
           bind_io (describe_target_groups lb_arn) (\<lambda>tgs.
             case tgs of
               [] \<Rightarrow> raise (DeploymentError ''No target groups found for load balancer'')
             | tg # _ \<Rightarrow>
                 bind_io (describe_rules (ListenerArn https_listener)) (\<lambda>existing.
                 bind_io (remove_rules existing 0) (\<lambda>_.
                 create_rule (ListenerArn https_listener) 1 all_paths
                   (auth_rule_actions https_config (TargetGroupArn tg))))))"

text \<open>
  Modelled from the spec: \<open>common.wait_for_env_status\<close>, the wait-for-status step of
  section 4.3. It polls the environment's status until it is the target status or a
  terminal failure status, sleeping between polls, with no timeout. An environment
  that is not described has the status \<open>absent\<close> of the data model.
\<close>

fun wait_for_env_status ::
  "nat \<Rightarrow> common_module \<Rightarrow> eb_client \<Rightarrow> string \<Rightarrow> string \<Rightarrow> unit polled" where
  "wait_for_env_status 0 cm eb env_name target w = (None, w)"
| "wait_for_env_status (Suc fuel) cm eb env_name target w =
     (case describe_environments [env_name] False w of
        (Inl e, w1) \<Rightarrow> (Some (Inl e), w1)
      | (Inr envs, w1) \<Rightarrow>
          (let status = (case envs of [] \<Rightarrow> ''absent'' | e # _ \<Rightarrow> env_Status e)
           in if status = target then (Some (Inr ()), w1)
              else if terminal_failure cm status then
                (Some (Inl (DeploymentError
                   (''Environment '' @ env_name @ '' reached status '' @ status))), w1)
              else wait_for_env_status fuel cm eb env_name target
                     (snd (time_sleep eb (poll_interval cm) w1))))"

subsection \<open>\<open>preserve_env_state\<close> and \<open>restore_env_state\<close>\<close>

text \<open>
  The state dictionary: each of its two keys is present or not. \<open>not state\<close> holds for
  \<open>None\<close> and for the dictionary with no key; a captured configuration is a non-empty
  dictionary, so a present \<open>https_config\<close> is true.
\<close>

record env_state =
  st_https_config :: "authenticate_oidc_config option"
  st_load_balancer_arn :: "string option"

definition state_truthy :: "env_state option \<Rightarrow> bool" where
  "state_truthy state =
     (case state of
        None \<Rightarrow> False
      | Some st \<Rightarrow> st_https_config st \<noteq> None \<or> st_load_balancer_arn st \<noteq> None)"

definition preserve_env_state :: "string \<Rightarrow> string \<Rightarrow> env_state option io" where
  "preserve_env_state env_name project_name =
     aws_handler (
       bind_io (find_environment_load_balancer env_name) (\<lambda>lb_arn.
         if \<not> truthy lb_arn then return None
         else
           bind_io (preserve_https_config (case_option [] id lb_arn) project_name) (\<lambda>https_config.
             if https_config = None then return None
             else return (Some \<lparr>st_https_config = https_config,
                                 st_load_balancer_arn = lb_arn\<rparr>))))"

definition restore_env_state :: "env_state option \<Rightarrow> string \<Rightarrow> unit io" where
  "restore_env_state state project_name =
     (if \<not> state_truthy state then return ()
      else
        (case state of
           None \<Rightarrow> return ()
         | Some st \<Rightarrow>
             (case st_https_config st of
                None \<Rightarrow> return ()
              | Some https_config \<Rightarrow>
                  bind_io (print ''Restoring HTTPS configuration...'') (\<lambda>_.
                    case st_load_balancer_arn st of
                      None \<Rightarrow> raise (KeyError ''load_balancer_arn'')
                    | Some lb_arn \<Rightarrow> restore_https_config lb_arn https_config project_name))))"

subsection \<open>\<open>create_or_update_env\<close>\<close>

definition load_balancer_type_setting :: "config \<Rightarrow> option_setting" where
  "load_balancer_type_setting config =
     \<lparr>Namespace = ''aws:elasticbeanstalk:environment'', OptionName = ''LoadBalancerType'',
      opt_Value = instance_elb_type config\<rparr>"

text \<open>
  The part of \<open>create_or_update_env\<close> before the wait: the existence test and the branch
  taken on it. It returns the preserved state (\<open>None\<close> on the create path).
\<close>

definition create_or_update_call ::
  "common_module \<Rightarrow> eb_client \<Rightarrow> config \<Rightarrow> string \<Rightarrow> string \<Rightarrow> env_state option io" where
  "create_or_update_call cm eb config version project_name =
     (let env_name = application_environment config
      in bind_io (describe_environments [env_name] False) (\<lambda>envs.
           (let env_exists = (envs \<noteq> []);
                settings = get_env_settings cm config
            in if env_exists then
                 bind_io (print ''Updating existing environment...'') (\<lambda>_.
                 bind_io (preserve_env_state env_name project_name) (\<lambda>state.
                 bind_io (update_environment eb env_name version settings) (\<lambda>_.
                 return state)))
               else
                 bind_io (print ''Creating new environment...'') (\<lambda>_.
                 bind_io (create_environment eb (application_name config) env_name version
                            (aws_platform config)
                            (settings @ [load_balancer_type_setting config])) (\<lambda>_.
                 return None)))))"

definition create_or_update_env ::
  "nat \<Rightarrow> common_module \<Rightarrow> eb_client \<Rightarrow> config \<Rightarrow> string \<Rightarrow> string \<Rightarrow> unit polled" where
  "create_or_update_env fuel cm eb config version project_name w =
     (case create_or_update_call cm eb config version project_name w of
        (Inl e, w1) \<Rightarrow> (Some (Inl e), w1)
      | (Inr state, w1) \<Rightarrow>
          (case wait_for_env_status fuel cm eb (application_environment config) ''Ready'' w1 of
             (Some (Inr u), w2) \<Rightarrow>
               (if state_truthy state
                then finished (restore_env_state state project_name) w2
                else (Some (Inr ()), w2))
           | (r, w2) \<Rightarrow> (r, w2)))"

section \<open>Observations on worlds and traces\<close>

text \<open>The messages logged at a level, in order.\<close>

fun logged :: "log_level \<Rightarrow> event list \<Rightarrow> string list" where
  "logged lvl [] = []"
| "logged lvl (Log l msg # evs) = (if l = lvl then msg # logged lvl evs else logged lvl evs)"
| "logged lvl (ev # evs) = logged lvl evs"

text \<open>
  \<open>only_debug_logs w w'\<close>: from \<open>w\<close> to \<open>w'\<close> the platform is untouched, the trace has
  grown by debug lines only, and the same variables count as missing.
\<close>

definition only_debug_logs :: "world \<Rightarrow> world \<Rightarrow> bool" where
  "only_debug_logs w w' \<longleftrightarrow>
     remote w' = remote w \<and>
     (\<exists>evs. trace w' = trace w @ evs \<and> (\<forall>ev \<in> set evs. \<exists>msg. ev = Log DEBUG msg)) \<and>
     (\<forall>n. var_missing w' n = var_missing w n)"

text \<open>What \<open>check_oidc_vars\<close> emits once it has found \<open>missing\<close> to be non-empty.\<close>

definition missing_report :: "string list \<Rightarrow> event list" where
  "missing_report missing =
     [Log ERROR ''Missing required OIDC configuration variables:'']
     @ map (\<lambda>var. Log ERROR (''  - '' @ var)) missing
     @ [Log INFO (CHR 0x0A # ''Please set these variables in your .env file or environment.''),
        Log INFO ''Example .env file format:'',
        Log INFO ''----------------------------------------------------'']
     @ map (\<lambda>(config_path, env_var). Log INFO (env_var @ ''=your-value-here''))
           (filter (\<lambda>(config_path, env_var). env_var \<in> set missing) required_vars)
     @ [Log INFO ''----------------------------------------------------'',
        EnsureEnvInGitignore]"

text \<open>The calls of a trace that change the platform, in order.\<close>

fun is_mutation :: "api_call \<Rightarrow> bool" where
  "is_mutation (DeleteRule a) = True"
| "is_mutation (ModifyListener a acts) = True"
| "is_mutation (CreateRule a p cs acts) = True"
| "is_mutation (UpdateEnvironment n v s) = True"
| "is_mutation (CreateEnvironment a n v p s) = True"
| "is_mutation c = False"

fun mutations :: "event list \<Rightarrow> api_call list" where
  "mutations [] = []"
| "mutations (Call c # evs) = (if is_mutation c then c # mutations evs else mutations evs)"
| "mutations (ev # evs) = mutations evs"

text \<open>
  A resolver is a computation that only looks resources up: it leaves everything but the
  trace as it is, adds no mutating call, and its result and the events it adds do not
  depend on the trace so far, on the rules or on the default actions. \<open>canon\<close> forgets
  these parts of a world; \<open>result_of\<close> and \<open>events_of\<close> are the result and the events of
  a computation run from the world so reduced.
\<close>

definition canon :: "world \<Rightarrow> world" where
  "canon w =
     w\<lparr>remote := (remote w)\<lparr>rules := [], default_actions := (\<lambda>arn. []), next_rule_id := 0\<rparr>,
       trace := []\<rparr>"

definition result_of :: "'a io \<Rightarrow> world \<Rightarrow> error + 'a" where
  "result_of m w = fst (m (canon w))"

definition events_of :: "'a io \<Rightarrow> world \<Rightarrow> event list" where
  "events_of m w = trace (snd (m (canon w)))"

definition resolver :: "'a io \<Rightarrow> bool" where
  "resolver m \<longleftrightarrow>
     (\<forall>w. m w = (result_of m w, w\<lparr>trace := trace w @ events_of m w\<rparr>)
          \<and> mutations (events_of m w) = [])"

text \<open>
  \<open>env_listed w env_name\<close>: the platform has an environment of that name that is not
  deleted, that is, \<open>describe_environments\<close> without deleted ones lists one.
\<close>

definition env_listed :: "world \<Rightarrow> string \<Rightarrow> bool" where
  "env_listed w env_name \<longleftrightarrow>
     filter (\<lambda>e. EnvironmentName e = env_name \<and> \<not> env_deleted e) (environments (remote w)) \<noteq> []"

text \<open>The rule \<open>create_rule\<close> adds to the platform \<open>p\<close>.\<close>

definition created_rule :: "platform \<Rightarrow> string \<Rightarrow> nat \<Rightarrow> condition list \<Rightarrow> action list \<Rightarrow> rule" where
  "created_rule p listener_arn priority conditions actions =
     \<lparr>RuleArn = listener_arn @ ''/rule/'' @ string_of_nat (next_rule_id p),
      rule_ListenerArn = listener_arn, Priority = string_of_nat priority,
      Conditions = conditions, Actions = actions, IsDefault = False\<rparr>"

text \<open>The ARNs the removal loop deletes: those of the non-default rules it is given.\<close>

definition removed_arns :: "rule list \<Rightarrow> string list" where
  "removed_arns rs = map RuleArn (filter (\<lambda>r. \<not> IsDefault r) rs)"

text \<open>
  The HTTP listener of a load balancer, as \<open>configure_oidc_auth\<close> picks it: the ARN of the
  first listener of the balancer on port 80, if there is one.
\<close>

definition http_listener_of :: "platform \<Rightarrow> string \<Rightarrow> string option" where
  "http_listener_of p lb_arn =
     map_option ListenerArn
       (find (\<lambda>l. Port l = 80) (filter (\<lambda>l. lis_LoadBalancerArn l = lb_arn) (listeners p)))"

text \<open>
  The platform after the rules of the listener \<open>la\<close> have been replaced by the single
  rule with the actions \<open>acts\<close>, the default action of \<open>la\<close> set to the 503 response and
  that of the HTTP listener, if any, to the redirect.
\<close>

definition rules_applied :: "platform \<Rightarrow> string \<Rightarrow> string \<Rightarrow> action list \<Rightarrow> platform" where
  "rules_applied p la lba acts =
     p\<lparr>rules := filter (\<lambda>r. RuleArn r \<notin> set (map RuleArn (rules_of p la))) (rules p)
                 @ [created_rule p la 1 all_paths acts],
       default_actions :=
         (case http_listener_of p lba of
            None \<Rightarrow> (default_actions p)(la := [deny_action])
          | Some h \<Rightarrow> ((default_actions p)(la := [deny_action]))(h := [redirect_action])),
       next_rule_id := Suc (next_rule_id p)\<rparr>"

text \<open>The events \<open>apply_oidc_rules\<close> adds to the trace when it succeeds.\<close>

definition apply_events ::
  "platform \<Rightarrow> string \<Rightarrow> string \<Rightarrow> action list \<Rightarrow> string \<Rightarrow> event list" where
  "apply_events p la lba acts domain =
     [Log INFO ''Removing existing listener rules'', Call (DescribeRules la)]
     @ map (\<lambda>a. Call (DeleteRule a)) (map RuleArn (rules_of p la))
     @ [Log INFO (if rules_of p la \<noteq> []
                  then ''Removed '' @ string_of_nat (length (rules_of p la)) @ '' rules''
                  else ''No rules to remove''),
        Log INFO ''Configuring OIDC authentication'',
        Log INFO ''Setting default listener action to deny unauthorized access'',
        Call (ModifyListener la [deny_action]),
        Log INFO ''Creating authentication rule'',
        Call (CreateRule la 1 all_paths acts),
        Log INFO ''Configuring HTTP to HTTPS redirect'',
        Call (DescribeListenersOf lba)]
     @ (case http_listener_of p lba of
          None \<Rightarrow> [Log INFO ''HTTP listener not found'']
        | Some h \<Rightarrow> [Call (ModifyListener h [redirect_action])])
     @ [Log INFO (''OIDC authentication successfully configured for https://'' @ domain)]"

text \<open>What a rule says, apart from the ARN the platform gave it.\<close>

definition rule_content :: "rule \<Rightarrow> string \<times> condition list \<times> action list" where
  "rule_content r = (Priority r, Conditions r, Actions r)"

section \<open>Example worlds\<close>

text \<open>
  A small platform used to exercise the definitions: the environment \<open>prod\<close> of the
  application \<open>app\<close>, behind an application load balancer with an HTTPS listener that
  has one rule, a target group and a wildcard certificate.
\<close>

definition example_platform :: platform where
  "example_platform =
     \<lparr>environments =
        [\<lparr>EnvironmentName = ''prod'', env_Status = ''Ready'', env_deleted = False\<rparr>],
      application_versions =
        [\<lparr>ApplicationName = ''app'', VersionLabel = ''v1'', ver_Status = ''PROCESSING''\<rparr>,
         \<lparr>ApplicationName = ''app'', VersionLabel = ''v2'', ver_Status = ''FAILED''\<rparr>],
      load_balancers =
        [\<lparr>LoadBalancerArn = ''lb1'', lb_Type = ''application'',
          lb_Tags = [(''elasticbeanstalk:environment-name'', ''prod'')]\<rparr>],
      listeners =
        [\<lparr>ListenerArn = ''l443'', lis_LoadBalancerArn = ''lb1'', Port = 443,
          Certificates = [''cert1'']\<rparr>],
      rules =
        [\<lparr>RuleArn = ''r1'', rule_ListenerArn = ''l443'', Priority = ''5'',
          Conditions = [], Actions = [], IsDefault = False\<rparr>],
      default_actions = (\<lambda>arn. []),
      target_groups = [\<lparr>TargetGroupArn = ''tg1'', tg_LoadBalancerArns = [''lb1'']\<rparr>],
      certificates = [(''cert1'', ''*.example.com'')],
      next_rule_id = 7\<rparr>"

definition example_world :: world where
  "example_world =
     \<lparr>remote = example_platform, os_environ = Map.empty, getpass_input = ''s3cret'',
      project_name_of = ''proj'', trace = []\<rparr>"

definition example_config :: config where
  "example_config =
     \<lparr>application_name = ''app'', application_environment = ''prod'',
      aws_platform = ''docker'', instance_elb_type = ''application'',
      oidc = Some \<lparr>oidc_client_id = ''cid'', oidc_issuer = ''https://idp'',
                   endpoints_authorization = ''https://idp/auth'',
                   endpoints_token = ''https://idp/token'',
                   endpoints_userinfo = ''https://idp/userinfo'',
                   session_cookie_name = ''sess'', session_timeout = 3600,
                   session_scope = ''openid''\<rparr>\<rparr>"


definition example_common :: common_module where
  "example_common =
     \<lparr>get_env_settings = (\<lambda>config.
        [\<lparr>Namespace = ''aws:autoscaling:asg'', OptionName = ''MinSize'', opt_Value = ''1''\<rparr>]),
      terminal_failure = (\<lambda>status. status = ''Terminated''),
      poll_interval = 5\<rparr>"

text \<open>
  A process in which only \<open>LB_OIDC_CLIENT_ID\<close> has a value (an old-named variable is
  present but empty), and a table of old variable names.
\<close>

definition only_client_id :: world where
  "only_client_id =
     example_world\<lparr>os_environ := [''LB_OIDC_CLIENT_ID'' \<mapsto> ''cid'', ''OIDC_ISSUER'' \<mapsto> []]\<rparr>"

definition legacy_names :: "(string \<times> string) list" where
  "legacy_names =
     [(''OIDC_CLIENT_ID'', ''LB_OIDC_CLIENT_ID''),
      (''OIDC_CLIENT_SECRET'', ''LB_OIDC_CLIENT_SECRET''),
      (''OIDC_ISSUER'', ''LB_OIDC_ISSUER'')]"

text \<open>The example world with a load balancer that carries no tag.\<close>

definition untagged_world :: world where
  "untagged_world =
     example_world\<lparr>remote := example_platform\<lparr>load_balancers :=
       [\<lparr>LoadBalancerArn = ''lb1'', lb_Type = ''application'', lb_Tags = []\<rparr>]\<rparr>\<rparr>"

text \<open>The example world with a second listener, on port 80, on the same load balancer.\<close>

definition http_world :: world where
  "http_world =
     example_world\<lparr>remote := example_platform\<lparr>listeners :=
       listeners example_platform
       @ [\<lparr>ListenerArn = ''l80'', lis_LoadBalancerArn = ''lb1'', Port = 80,
           Certificates = []\<rparr>]\<rparr>\<rparr>"

section \<open>Properties\<close>

subsection \<open>Bundling exclusion\<close>

lemma ebignore_never_bundled:
  "''.ebignore'' \<notin> set (create_app_bundle ebignore files)"
  by (simp add: create_app_bundle_def file_in_bundle_def split: prod.splits)

lemma bundle_example_tree:
  "create_app_bundle (Some [''build/'', ''*.log'', ''!keep.log''])
     [''build/out.txt'', ''app.log'', ''keep.log'', ''src/main.py'']
   = [''keep.log'', ''src/main.py'']"
  by code_simp

lemma bundle_example_tree_with_ignore_file:
  "create_app_bundle (Some [''build/'', ''*.log'', ''!keep.log''])
     [''.ebignore'', ''build/out.txt'', ''app.log'', ''keep.log'', ''src/main.py'']
   = [''keep.log'', ''src/main.py'']"
  by code_simp

text \<open>
  Claim C6. With the ignore patterns \<open>build/\<close>, \<open>*.log\<close> and the negation
  \<open>!keep.log\<close>, the bundling filter run over the tree \<open>build/out.txt\<close>, \<open>app.log\<close>,
  \<open>keep.log\<close>, \<open>src/main.py\<close> (with or without the ignore file among the files) puts
  exactly \<open>keep.log\<close> and \<open>src/main.py\<close> into the bundle; and for every ignore file
  and every tree, \<open>.ebignore\<close> is not a member of the bundle.
\<close>

theorem bundling_exclusion:
  "create_app_bundle (Some [''build/'', ''*.log'', ''!keep.log''])
     [''build/out.txt'', ''app.log'', ''keep.log'', ''src/main.py'']
   = [''keep.log'', ''src/main.py'']
   \<and> create_app_bundle (Some [''build/'', ''*.log'', ''!keep.log''])
     [''.ebignore'', ''build/out.txt'', ''app.log'', ''keep.log'', ''src/main.py'']
   = [''keep.log'', ''src/main.py'']
   \<and> (\<forall>ebignore files. ''.ebignore'' \<notin> set (create_app_bundle ebignore files))"
  using ebignore_never_bundled bundle_example_tree bundle_example_tree_with_ignore_file
  by blast

theorem bundling_exclusion_witness:
  "''.ebignore'' \<notin> set (create_app_bundle (Some [''*.py'', ''!.ebignore'', ''!*''])
                                 [''.ebignore'', ''src/main.py'', ''sub/.ebignore''])
   \<and> create_app_bundle (Some [''*.py'', ''!.ebignore'', ''!*''])
                                 [''.ebignore'', ''src/main.py'', ''sub/.ebignore'']
       = [''src/main.py'', ''sub/.ebignore'']"
proof -
  have "''.ebignore'' \<notin> set (create_app_bundle (Some [''*.py'', ''!.ebignore'', ''!*''])
                                 [''.ebignore'', ''src/main.py'', ''sub/.ebignore''])"
    using bundling_exclusion by blast
  moreover have "create_app_bundle (Some [''*.py'', ''!.ebignore'', ''!*''])
                                 [''.ebignore'', ''src/main.py'', ''sub/.ebignore'']
       = [''src/main.py'', ''sub/.ebignore'']"
    by code_simp
  ultimately show ?thesis by simp
qed

subsection \<open>Waiting for the application version\<close>


lemma version_status_trace [simp]:
  "version_status (w\<lparr>trace := t\<rparr>) app_name version = version_status w app_name version"
  by (simp add: version_status_def)






subsection \<open>Missing OIDC variables\<close>

lemma only_debug_logs_refl: "only_debug_logs w w"
  by (simp add: only_debug_logs_def)

lemma only_debug_logs_trans:
  assumes "only_debug_logs w w1" and "only_debug_logs w1 w2"
  shows "only_debug_logs w w2"
proof -
  from assms obtain evs1 evs2 where
    "trace w1 = trace w @ evs1" "\<forall>ev \<in> set evs1. \<exists>msg. ev = Log DEBUG msg"
    "trace w2 = trace w1 @ evs2" "\<forall>ev \<in> set evs2. \<exists>msg. ev = Log DEBUG msg"
    unfolding only_debug_logs_def by blast
  then have "trace w2 = trace w @ (evs1 @ evs2) \<and> (\<forall>ev \<in> set (evs1 @ evs2). \<exists>msg. ev = Log DEBUG msg)"
    by auto
  then have "\<exists>evs. trace w2 = trace w @ evs \<and> (\<forall>ev \<in> set evs. \<exists>msg. ev = Log DEBUG msg)"
    by blast
  with assms show ?thesis
    unfolding only_debug_logs_def by simp
qed

lemma map_old_name_unset:
  assumes "var_missing w old_name"
  shows "fst (map_old_name (old_name, new_name) w) = Inr ()
         \<and> only_debug_logs w (snd (map_old_name (old_name, new_name) w))"
proof (cases "os_environ w old_name")
  case None
  then show ?thesis by (simp add: map_old_name_def only_debug_logs_refl)
next
  case (Some v)
  with assms have v: "v = []" by (simp add: var_missing_def)
  show ?thesis
  proof (cases "os_environ w new_name = None")
    case False
    then obtain y where "os_environ w new_name = Some y" by blast
    with Some show ?thesis by (simp add: map_old_name_def only_debug_logs_refl)
  next
    case True
    with Some v show ?thesis
      by (simp add: map_old_name_def logger_debug_def emit_def only_debug_logs_def var_missing_def)
  qed
qed

lemma map_old_names_unset:
  "\<forall>(old_name, new_name) \<in> set var_mapping. var_missing w old_name \<Longrightarrow>
   fst (for_each var_mapping map_old_name w) = Inr ()
   \<and> only_debug_logs w (snd (for_each var_mapping map_old_name w))"
proof (induction var_mapping arbitrary: w)
  case Nil
  then show ?case by (simp add: return_def only_debug_logs_refl)
next
  case (Cons e var_mapping)
  obtain old_name new_name where e: "e = (old_name, new_name)" by (cases e)
  from Cons.prems e have miss: "var_missing w old_name" by simp
  define w1 where "w1 = snd (map_old_name (old_name, new_name) w)"
  from map_old_name_unset [OF miss, of new_name]
  have s1: "map_old_name (old_name, new_name) w = (Inr (), w1)" and q1: "only_debug_logs w w1"
    by (simp_all add: w1_def prod_eq_iff)
  have "\<forall>(old_name, new_name) \<in> set var_mapping. var_missing w1 old_name"
    using Cons.prems q1 by (auto simp: only_debug_logs_def)
  from Cons.IH [OF this]
  have s2: "fst (for_each var_mapping map_old_name w1) = Inr ()"
    and q2: "only_debug_logs w1 (snd (for_each var_mapping map_old_name w1))"
    by simp_all
  have eq: "for_each (e # var_mapping) map_old_name w = for_each var_mapping map_old_name w1"
    using s1 by (simp add: e bind_io_def)
  show ?case
    unfolding eq using s2 only_debug_logs_trans [OF q1 q2] by simp
qed

lemma for_each_emit:
  "for_each xs (\<lambda>x. emit (f x)) w = (Inr (), w\<lparr>trace := trace w @ map f xs\<rparr>)"
  by (induction xs arbitrary: w) (simp_all add: return_def bind_io_def emit_def)

lemma emit_then:
  "bind_io (emit ev) f w = f () (w\<lparr>trace := trace w @ [ev]\<rparr>)"
  by (simp add: bind_io_def emit_def)

lemma for_each_emit_then:
  "bind_io (for_each xs (\<lambda>x. emit (f x))) g w = g () (w\<lparr>trace := trace w @ map f xs\<rparr>)"
  by (simp add: bind_io_def for_each_emit)

lemma check_after_mapping:
  assumes "for_each var_mapping map_old_name w = (Inr (), w1)" and "find_missing w1 \<noteq> []"
  shows "check_oidc_vars var_mapping config w
           = (Inr False, w1\<lparr>trace := trace w1 @ missing_report (find_missing w1)\<rparr>)"
  using assms
  by (simp add: check_oidc_vars_def bind_io_def [of "for_each var_mapping map_old_name"]
        Let_def logger_error_def logger_info_def ensure_env_in_gitignore_def emit_then
        for_each_emit_then case_prod_unfold return_def missing_report_def)

lemma logged_append: "logged lvl (xs @ ys) = logged lvl xs @ logged lvl ys"
  by (induction lvl xs rule: logged.induct) simp_all

lemma logged_debug_only:
  "\<forall>ev \<in> set evs. \<exists>msg. ev = Log DEBUG msg \<Longrightarrow> logged ERROR evs = []"
  by (induction evs) auto

lemma logged_error_lines: "logged ERROR (map (\<lambda>x. Log ERROR (f x)) xs) = map f xs"
  by (induction xs) simp_all

lemma logged_info_lines: "logged ERROR (map (\<lambda>x. Log INFO (g x)) ys) = []"
  by (induction ys) simp_all

lemma logged_error_report:
  "logged ERROR (missing_report missing)
     = ''Missing required OIDC configuration variables:'' # map (\<lambda>var. ''  - '' @ var) missing"
proof -
  have "logged ERROR (map (\<lambda>var. Log ERROR (''  - '' @ var)) missing)
          = map (\<lambda>var. ''  - '' @ var) missing"
    by (rule logged_error_lines)
  moreover have "logged ERROR (map (\<lambda>(config_path, env_var). Log INFO (env_var @ ''=your-value-here''))
           (filter (\<lambda>(config_path, env_var). env_var \<in> set missing) required_vars)) = []"
    unfolding case_prod_unfold by (rule logged_info_lines)
  ultimately show ?thesis
    unfolding missing_report_def logged_append by simp
qed

lemma no_call_in_report: "Call c \<notin> set (missing_report missing)"
  by (auto simp: missing_report_def)

lemma find_missing_five:
  assumes "\<not> var_missing w ''LB_OIDC_CLIENT_ID''"
    and "\<forall>n \<in> set other_required_vars. var_missing w n"
  shows "find_missing w = other_required_vars"
  using assms by (simp add: find_missing_def required_vars_def other_required_vars_def)

text \<open>
  Claim C8. Let \<open>LB_OIDC_CLIENT_ID\<close> be set (present with a non-empty value, which is
  what the check counts as not missing), let the five other required variables be
  missing and let no old-named variable of the mapping table be set. Then
  \<open>check_oidc_vars\<close> returns \<open>False\<close>, and so does \<open>validate_oidc_config\<close> when the
  configuration has its \<open>oidc\<close> section; the error lines it logs are the heading and
  exactly one line for each of the five other variables; the platform is untouched and
  no client call is among the events it adds to the trace.
\<close>

theorem check_oidc_vars_only_client_id:
  assumes "\<not> var_missing w ''LB_OIDC_CLIENT_ID''"
    and "\<forall>n \<in> set other_required_vars. var_missing w n"
    and "\<forall>(old_name, new_name) \<in> set var_mapping. var_missing w old_name"
  shows "\<exists>w' evs.
           check_oidc_vars var_mapping config w = (Inr False, w')
         \<and> (oidc config \<noteq> None \<longrightarrow> validate_oidc_config var_mapping config w = (Inr False, w'))
         \<and> remote w' = remote w
         \<and> trace w' = trace w @ evs
         \<and> (\<forall>c. Call c \<notin> set evs)
         \<and> logged ERROR evs
             = ''Missing required OIDC configuration variables:''
               # map (\<lambda>var. ''  - '' @ var) other_required_vars"
proof -
  define w1 where "w1 = snd (for_each var_mapping map_old_name w)"
  from map_old_names_unset [OF assms(3)]
  have loop: "for_each var_mapping map_old_name w = (Inr (), w1)" and q: "only_debug_logs w w1"
    by (simp_all add: w1_def prod_eq_iff)
  from q obtain evs1 where
    t1: "trace w1 = trace w @ evs1" and d1: "\<forall>ev \<in> set evs1. \<exists>msg. ev = Log DEBUG msg"
    and r1: "remote w1 = remote w" and v1: "\<forall>n. var_missing w1 n = var_missing w n"
    unfolding only_debug_logs_def by blast
  from assms(1,2) v1 have m: "find_missing w1 = other_required_vars"
    by (intro find_missing_five) simp_all
  then have ne: "find_missing w1 \<noteq> []" by (simp add: other_required_vars_def)
  define w' where "w' = w1\<lparr>trace := trace w1 @ missing_report other_required_vars\<rparr>"
  from check_after_mapping [OF loop ne, of config] m
  have c: "check_oidc_vars var_mapping config w = (Inr False, w')"
    by (simp add: w'_def)
  then have v: "oidc config \<noteq> None \<longrightarrow> validate_oidc_config var_mapping config w = (Inr False, w')"
    by (simp add: validate_oidc_config_def bind_io_def return_def)
  have t: "trace w' = trace w @ (evs1 @ missing_report other_required_vars)"
    by (simp add: w'_def t1)
  have nc: "\<forall>c. Call c \<notin> set (evs1 @ missing_report other_required_vars)"
    using d1 no_call_in_report by auto
  have le: "logged ERROR (evs1 @ missing_report other_required_vars)
             = ''Missing required OIDC configuration variables:''
               # map (\<lambda>var. ''  - '' @ var) other_required_vars"
    by (simp add: logged_append logged_debug_only [OF d1] logged_error_report)
  have r: "remote w' = remote w" by (simp add: w'_def r1)
  from c v r t nc le show ?thesis by blast
qed

theorem check_oidc_vars_only_client_id_witness:
  "\<not> var_missing only_client_id ''LB_OIDC_CLIENT_ID''
   \<and> list_all (var_missing only_client_id) other_required_vars
   \<and> list_all (\<lambda>(old_name, new_name). var_missing only_client_id old_name) legacy_names
   \<and> fst (check_oidc_vars legacy_names example_config only_client_id) = Inr False
   \<and> fst (validate_oidc_config legacy_names example_config only_client_id) = Inr False
   \<and> remote (snd (check_oidc_vars legacy_names example_config only_client_id)) = example_platform
   \<and> logged ERROR (trace (snd (check_oidc_vars legacy_names example_config only_client_id)))
       = [''Missing required OIDC configuration variables:'', ''  - LB_OIDC_CLIENT_SECRET'',
          ''  - LB_OIDC_ISSUER'', ''  - LB_OIDC_AUTH_ENDPOINT'', ''  - LB_OIDC_TOKEN_ENDPOINT'',
          ''  - LB_OIDC_USERINFO_ENDPOINT'']"
proof -
  have h1: "\<not> var_missing only_client_id ''LB_OIDC_CLIENT_ID''"
    by (simp add: only_client_id_def var_missing_def)
  have h2: "\<forall>n \<in> set other_required_vars. var_missing only_client_id n"
    by (simp add: only_client_id_def var_missing_def other_required_vars_def)
  have h3: "\<forall>(old_name, new_name) \<in> set legacy_names. var_missing only_client_id old_name"
    by (simp add: only_client_id_def var_missing_def legacy_names_def)
  have h4: "oidc example_config \<noteq> None"
    by (simp add: example_config_def)
  from check_oidc_vars_only_client_id [OF h1 h2 h3, of example_config] h4
  obtain w' evs where
    c: "check_oidc_vars legacy_names example_config only_client_id = (Inr False, w')"
    and v: "validate_oidc_config legacy_names example_config only_client_id = (Inr False, w')"
    and r: "remote w' = remote only_client_id"
    and t: "trace w' = trace only_client_id @ evs"
    and l: "logged ERROR evs = ''Missing required OIDC configuration variables:''
               # map (\<lambda>var. ''  - '' @ var) other_required_vars"
    by blast
  have "trace only_client_id = []" "remote only_client_id = example_platform"
    by (simp_all add: only_client_id_def example_world_def)
  with c v r t l h1 h2 h3 show ?thesis
    by (simp add: other_required_vars_def list_all_iff)
qed

subsection \<open>Resolvers\<close>

lemma mutations_append: "mutations (xs @ ys) = mutations xs @ mutations ys"
  by (induction xs rule: mutations.induct) simp_all

lemma canon_canon [simp]: "canon (canon w) = canon w"
  by (simp add: canon_def)

lemma canon_trace [simp]: "canon (w\<lparr>trace := t\<rparr>) = canon w"
  by (simp add: canon_def)

lemma trace_canon [simp]: "trace (canon w) = []"
  by (simp add: canon_def)

lemma result_of_canon [simp]: "result_of m (canon w) = result_of m w"
  by (simp add: result_of_def)

lemma events_of_canon [simp]: "events_of m (canon w) = events_of m w"
  by (simp add: events_of_def)

lemma result_of_trace [simp]: "result_of m (w\<lparr>trace := t\<rparr>) = result_of m w"
  by (simp add: result_of_def)

lemma events_of_trace [simp]: "events_of m (w\<lparr>trace := t\<rparr>) = events_of m w"
  by (simp add: events_of_def)

lemma resolverI:
  assumes "\<And>w. m w = (fst (m (canon w)), w\<lparr>trace := trace w @ trace (snd (m (canon w)))\<rparr>)"
    and "\<And>w. mutations (trace (snd (m (canon w)))) = []"
  shows "resolver m"
  unfolding resolver_def result_of_def events_of_def using assms by blast

lemma resolver_run:
  "resolver m \<Longrightarrow> m w = (result_of m w, w\<lparr>trace := trace w @ events_of m w\<rparr>)"
  unfolding resolver_def by blast

lemma resolver_run_canon:
  "resolver m \<Longrightarrow> m (canon w) = (result_of m w, (canon w)\<lparr>trace := events_of m w\<rparr>)"
  using resolver_run [of m "canon w"] by simp

lemma resolver_no_mutation: "resolver m \<Longrightarrow> mutations (events_of m w) = []"
  unfolding resolver_def by blast

text \<open>Result and events of a resolver, computed from one run.\<close>

lemma resolver_resultI:
  assumes "resolver m" and "m w = (r, w')"
  shows "result_of m w = r" and "w' = w\<lparr>trace := trace w @ events_of m w\<rparr>"
  using resolver_run [OF assms(1), of w] assms(2) by simp_all

lemma resolver_return: "resolver (return x)"
  by (rule resolverI) (simp_all add: return_def)

lemma resolver_raise: "resolver (raise e)"
  by (rule resolverI) (simp_all add: raise_def)

lemma resolver_log: "resolver (emit (Log lvl msg))"
  by (rule resolverI) (simp_all add: emit_def)

lemma bind_io_result_events:
  assumes m: "resolver m" and f: "\<And>x. resolver (f x)"
  shows "bind_io m f w =
     (case result_of m w of
        Inl e \<Rightarrow> (Inl e, w\<lparr>trace := trace w @ events_of m w\<rparr>)
      | Inr x \<Rightarrow> (result_of (f x) w,
                  w\<lparr>trace := trace w @ events_of m w @ events_of (f x) w\<rparr>))"
proof (cases "result_of m w")
  case (Inl e)
  then show ?thesis
    using resolver_run [OF m, of w] by (simp add: bind_io_def)
next
  case (Inr x)
  have "f x (w\<lparr>trace := trace w @ events_of m w\<rparr>)
          = (result_of (f x) w, w\<lparr>trace := trace w @ events_of m w @ events_of (f x) w\<rparr>)"
    using resolver_run [OF f, of x "w\<lparr>trace := trace w @ events_of m w\<rparr>"] by simp
  with Inr show ?thesis
    using resolver_run [OF m, of w] by (simp add: bind_io_def)
qed

lemma resolver_bind:
  assumes m: "resolver m" and f: "\<And>x. resolver (f x)"
  shows "resolver (bind_io m f)"
proof (rule resolverI)
  fix w
  note b = bind_io_result_events [OF m f]
  show "bind_io m f w = (fst (bind_io m f (canon w)),
          w\<lparr>trace := trace w @ trace (snd (bind_io m f (canon w)))\<rparr>)"
    by (simp add: b [where w = w] b [where w = "canon w"] split: sum.splits)
  show "mutations (trace (snd (bind_io m f (canon w)))) = []"
    using resolver_no_mutation [OF m] resolver_no_mutation [OF f]
    by (simp add: b [where w = "canon w"] mutations_append split: sum.splits)
qed

lemma aws_handler_result_events:
  assumes "resolver m"
  shows "aws_handler m w =
     (case result_of m w of
        Inl (ClientError c) \<Rightarrow> Inl (DeploymentError c)
      | r \<Rightarrow> r, w\<lparr>trace := trace w @ events_of m w\<rparr>)"
  using resolver_run [OF assms, of w]
  by (simp add: aws_handler_def split: sum.splits error.splits)

lemma resolver_aws_handler:
  assumes "resolver m"
  shows "resolver (aws_handler m)"
proof (rule resolverI)
  fix w
  note a = aws_handler_result_events [OF assms]
  show "aws_handler m w = (fst (aws_handler m (canon w)),
          w\<lparr>trace := trace w @ trace (snd (aws_handler m (canon w)))\<rparr>)"
    by (simp add: a [where w = w] a [where w = "canon w"])
  show "mutations (trace (snd (aws_handler m (canon w)))) = []"
    using resolver_no_mutation [OF assms, of w] by (simp add: a [where w = "canon w"])
qed

lemma resolver_if: "resolver m1 \<Longrightarrow> resolver m2 \<Longrightarrow> resolver (if b then m1 else m2)"
  by simp

lemma resolver_describe_environments: "resolver (describe_environments names deleted)"
  by (rule resolverI) (simp_all add: describe_environments_def bind_io_def emit_def canon_def)

lemma resolver_describe_load_balancers: "resolver describe_load_balancers"
  by (rule resolverI) (simp_all add: describe_load_balancers_def bind_io_def emit_def canon_def)

lemma resolver_describe_tags: "resolver (describe_tags arns)"
  by (rule resolverI) (simp_all add: describe_tags_def bind_io_def emit_def canon_def)

lemma resolver_describe_listeners_of: "resolver (describe_listeners_of lb_arn)"
  by (rule resolverI) (simp_all add: describe_listeners_of_def bind_io_def emit_def canon_def)

lemma resolver_describe_listeners: "resolver (describe_listeners arns)"
  by (rule resolverI) (simp_all add: describe_listeners_def bind_io_def emit_def canon_def)

lemma resolver_describe_certificate: "resolver (describe_certificate cert_arn)"
  by (rule resolverI)
     (simp_all add: describe_certificate_def bind_io_def emit_def canon_def split: option.splits)

lemma resolver_describe_target_groups: "resolver (describe_target_groups lb_arn)"
  by (rule resolverI) (simp_all add: describe_target_groups_def bind_io_def emit_def canon_def)

lemma resolver_first_item: "resolver (first_item xs)"
  by (cases xs) (simp_all add: first_item_def resolver_return resolver_raise)

lemma resolver_logger_info: "resolver (logger_info msg)"
  by (simp add: logger_info_def resolver_log)

lemma resolver_find_env_lb: "resolver (find_env_lb env_name lbs)"
  by (induction lbs)
     (auto intro!: resolver_bind resolver_return resolver_describe_tags resolver_first_item)

lemma resolver_find_listener_arn: "resolver (find_listener_arn env_name)"
  unfolding find_listener_arn_def
  by (auto intro!: resolver_aws_handler resolver_bind resolver_return resolver_raise
        resolver_logger_info resolver_describe_environments resolver_describe_load_balancers
        resolver_find_env_lb resolver_describe_listeners_of
      split: option.splits)

lemma resolver_get_domain: "resolver (get_domain_from_listener listener_arn)"
proof -
  have "resolver (\<lambda>w. return (py_replace_star d (project_name_of w)) w)" for d
    by (rule resolverI) (simp_all add: return_def canon_def)
  then show ?thesis
    unfolding get_domain_from_listener_def
    by (auto intro!: resolver_aws_handler resolver_bind resolver_first_item
          resolver_describe_listeners resolver_describe_certificate)
qed

lemma resolver_find_target_group_arn: "resolver (find_target_group_arn lb_arn)"
  unfolding find_target_group_arn_def
  by (auto intro!: resolver_aws_handler resolver_bind resolver_return resolver_raise
        resolver_logger_info resolver_describe_target_groups
      split: list.splits)

lemma resolver_get_client_secret: "resolver (get_client_secret secret)"
  by (rule resolverI)
     (simp_all add: get_client_secret_def bind_io_def emit_def canon_def environ_get_def
        split: option.splits)

lemma resolver_find_tagged_lb: "resolver (find_tagged_lb env_name lbs)"
  by (induction lbs)
     (auto intro!: resolver_bind resolver_return resolver_describe_tags resolver_first_item)

lemma resolver_find_environment_load_balancer:
  "resolver (find_environment_load_balancer env_name)"
  unfolding find_environment_load_balancer_def
  by (auto intro!: resolver_bind resolver_return resolver_describe_environments
        resolver_describe_load_balancers resolver_find_tagged_lb)

lemma result_of_fst: "resolver m \<Longrightarrow> fst (m w) = result_of m w"
  by (simp add: resolver_run)

lemma result_of_bind:
  assumes "resolver m" and "\<And>x. resolver (f x)"
  shows "result_of (bind_io m f) w =
           (case result_of m w of Inl e \<Rightarrow> Inl e | Inr x \<Rightarrow> result_of (f x) w)"
proof -
  have "result_of (bind_io m f) w = fst (bind_io m f w)"
    by (simp add: result_of_fst resolver_bind assms)
  then show ?thesis
    by (simp add: bind_io_result_events [OF assms] split: sum.splits)
qed

lemma result_of_aws_handler:
  assumes "resolver m"
  shows "result_of (aws_handler m) w =
           (case result_of m w of Inl (ClientError c) \<Rightarrow> Inl (DeploymentError c) | r \<Rightarrow> r)"
proof -
  have "result_of (aws_handler m) w = fst (aws_handler m w)"
    by (simp add: result_of_fst resolver_aws_handler assms)
  then show ?thesis
    by (simp add: aws_handler_result_events [OF assms])
qed

lemma result_of_return [simp]: "result_of (return x) w = Inr x"
  by (simp add: result_of_def return_def)

lemma result_of_raise [simp]: "result_of (raise e) w = Inl e"
  by (simp add: result_of_def raise_def)

lemma result_of_logger_info [simp]: "result_of (logger_info msg) w = Inr ()"
  by (simp add: result_of_def logger_info_def emit_def)

lemma result_of_first_item:
  "result_of (first_item xs) w = (case xs of [] \<Rightarrow> Inl IndexError | x # _ \<Rightarrow> Inr x)"
  by (simp add: result_of_def first_item_def return_def raise_def split: list.splits)

lemma result_of_describe_environments:
  "result_of (describe_environments names deleted) w =
     Inr (filter (\<lambda>e. EnvironmentName e \<in> set names \<and> (deleted \<or> \<not> env_deleted e))
                 (environments (remote w)))"
  by (simp add: result_of_def describe_environments_def bind_io_def emit_def canon_def)

lemma result_of_describe_load_balancers:
  "result_of describe_load_balancers w = Inr (load_balancers (remote w))"
  by (simp add: result_of_def describe_load_balancers_def bind_io_def emit_def canon_def)

lemma result_of_describe_tags:
  "result_of (describe_tags arns) w =
     (if \<forall>a \<in> set arns. a \<in> LoadBalancerArn ` set (load_balancers (remote w))
      then Inr (map (\<lambda>a. case find (\<lambda>lb. LoadBalancerArn lb = a) (load_balancers (remote w)) of
                            Some lb \<Rightarrow> lb_Tags lb | None \<Rightarrow> []) arns)
      else Inl (ClientError ''LoadBalancerNotFound''))"
  by (simp add: result_of_def describe_tags_def bind_io_def emit_def canon_def)

lemma result_of_describe_listeners_of:
  "result_of (describe_listeners_of lb_arn) w =
     (if lb_arn \<in> LoadBalancerArn ` set (load_balancers (remote w))
      then Inr (filter (\<lambda>l. lis_LoadBalancerArn l = lb_arn) (listeners (remote w)))
      else Inl (ClientError ''LoadBalancerNotFound''))"
  by (simp add: result_of_def describe_listeners_of_def bind_io_def emit_def canon_def)

lemma result_of_describe_target_groups:
  "result_of (describe_target_groups lb_arn) w =
     (if lb_arn \<in> LoadBalancerArn ` set (load_balancers (remote w))
      then Inr (filter (\<lambda>t. lb_arn \<in> set (tg_LoadBalancerArns t)) (target_groups (remote w)))
      else Inl (ClientError ''LoadBalancerNotFound''))"
  by (simp add: result_of_def describe_target_groups_def bind_io_def emit_def canon_def)

lemma untagged_tags:
  assumes "\<forall>lb \<in> set (load_balancers (remote w)). \<not> list_ex (env_tag env_name) (lb_Tags lb)"
    and "lb \<in> set (load_balancers (remote w))"
  shows "\<exists>tags. result_of (describe_tags [LoadBalancerArn lb]) w = Inr [tags]
                \<and> \<not> list_ex (env_tag env_name) tags"
proof -
  from assms(2) obtain lb' where
    "find (\<lambda>l. LoadBalancerArn l = LoadBalancerArn lb) (load_balancers (remote w)) = Some lb'"
    by (cases "find (\<lambda>l. LoadBalancerArn l = LoadBalancerArn lb) (load_balancers (remote w))")
       (auto simp: find_None_iff)
  moreover from this have "lb' \<in> set (load_balancers (remote w))"
    by (auto simp: find_Some_iff)
  ultimately show ?thesis
    using assms by (simp add: result_of_describe_tags)
qed

lemma find_env_lb_untagged:
  assumes "\<forall>lb \<in> set (load_balancers (remote w)). \<not> list_ex (env_tag env_name) (lb_Tags lb)"
    and "set lbs \<subseteq> set (load_balancers (remote w))"
  shows "result_of (find_env_lb env_name lbs) w = Inr None"
  using assms(2)
proof (induction lbs)
  case Nil
  then show ?case by simp
next
  case (Cons lb lbs)
  then have in_p: "lb \<in> set (load_balancers (remote w))" and IH: "result_of (find_env_lb env_name lbs) w = Inr None"
    by simp_all
  from untagged_tags [OF assms(1) in_p] obtain tags where
    t: "result_of (describe_tags [LoadBalancerArn lb]) w = Inr [tags]"
    and n: "\<not> list_ex (env_tag env_name) tags" by blast
  show ?case
  proof (cases "py_lower (lb_Type lb) \<noteq> ''application''")
    case True
    with IH show ?thesis by simp
  next
    case False
    have "result_of (find_env_lb env_name (lb # lbs)) w
            = result_of (bind_io (describe_tags [LoadBalancerArn lb]) (\<lambda>tag_descriptions.
                bind_io (first_item tag_descriptions) (\<lambda>tags.
                  if list_ex (env_tag env_name) tags then return (Some lb)
                  else find_env_lb env_name lbs))) w"
      using False by simp
    also have "\<dots> = Inr None"
      using t n IH
      by (simp add: result_of_bind resolver_bind resolver_describe_tags resolver_first_item
            resolver_return resolver_find_env_lb result_of_first_item)
    finally show ?thesis .
  qed
qed

subsection \<open>Resolving an environment that has no load balancer\<close>

lemmas resolver_intros =
  resolver_aws_handler resolver_bind resolver_return resolver_raise resolver_logger_info
  resolver_describe_environments resolver_describe_load_balancers resolver_find_env_lb
  resolver_describe_listeners_of resolver_describe_tags resolver_first_item
  resolver_find_tagged_lb resolver_describe_target_groups

lemma find_listener_arn_env_absent:
  assumes "\<not> env_listed w env_name"
  shows "fst (find_listener_arn env_name w)
           = Inl (DeploymentError (''Environment '' @ env_name @ '' not found''))"
proof -
  have "result_of (find_listener_arn env_name) w
          = Inl (DeploymentError (''Environment '' @ env_name @ '' not found''))"
    unfolding find_listener_arn_def using assms
    by (simp add: env_listed_def result_of_aws_handler result_of_bind resolver_intros
          result_of_describe_environments split: option.splits)
  then show ?thesis
    by (simp add: result_of_fst resolver_find_listener_arn)
qed

lemma find_listener_arn_untagged:
  assumes "env_listed w env_name"
    and "\<forall>lb \<in> set (load_balancers (remote w)). \<not> list_ex (env_tag env_name) (lb_Tags lb)"
  shows "fst (find_listener_arn env_name w)
           = Inl (DeploymentError (''No load balancer found for environment '' @ env_name))"
proof -
  have "result_of (find_env_lb env_name (load_balancers (remote w))) w = Inr None"
    by (rule find_env_lb_untagged [OF assms(2)]) simp
  then have "result_of (find_listener_arn env_name) w
          = Inl (DeploymentError (''No load balancer found for environment '' @ env_name))"
    unfolding find_listener_arn_def using assms(1)
    by (simp add: env_listed_def result_of_aws_handler result_of_bind resolver_intros
          result_of_describe_environments result_of_describe_load_balancers split: option.splits)
  then show ?thesis
    by (simp add: result_of_fst resolver_find_listener_arn)
qed

lemma find_tagged_lb_untagged:
  assumes "\<forall>lb \<in> set (load_balancers (remote w)). \<not> list_ex (env_tag env_name) (lb_Tags lb)"
    and "set lbs \<subseteq> set (load_balancers (remote w))"
  shows "result_of (find_tagged_lb env_name lbs) w = Inr None"
  using assms(2)
proof (induction lbs)
  case Nil
  then show ?case by simp
next
  case (Cons lb lbs)
  then have in_p: "lb \<in> set (load_balancers (remote w))"
    and IH: "result_of (find_tagged_lb env_name lbs) w = Inr None"
    by simp_all
  from untagged_tags [OF assms(1) in_p] obtain tags where
    "result_of (describe_tags [LoadBalancerArn lb]) w = Inr [tags]"
    "\<not> list_ex (env_tag env_name) tags" by blast
  with IH show ?case
    by (simp add: result_of_bind resolver_intros result_of_first_item)
qed

lemma find_environment_load_balancer_none:
  assumes "\<not> env_listed w env_name
           \<or> (\<forall>lb \<in> set (load_balancers (remote w)). \<not> list_ex (env_tag env_name) (lb_Tags lb))"
  shows "result_of (find_environment_load_balancer env_name) w = Inr None"
proof (cases "env_listed w env_name")
  case False
  then show ?thesis
    unfolding find_environment_load_balancer_def
    by (simp add: env_listed_def result_of_bind resolver_intros result_of_describe_environments)
next
  case True
  with assms have "result_of (find_tagged_lb env_name (load_balancers (remote w))) w = Inr None"
    by (intro find_tagged_lb_untagged) auto
  with True show ?thesis
    unfolding find_environment_load_balancer_def
    by (simp add: env_listed_def result_of_bind resolver_intros result_of_describe_environments
          result_of_describe_load_balancers)
qed

lemma preserve_env_state_none:
  assumes "result_of (find_environment_load_balancer env_name) w = Inr None"
  shows "preserve_env_state env_name project_name w
           = (Inr None, w\<lparr>trace := trace w @ events_of (find_environment_load_balancer env_name) w\<rparr>)"
  using resolver_run [OF resolver_find_environment_load_balancer, of env_name w] assms
  by (simp add: preserve_env_state_def aws_handler_def bind_io_def truthy_def return_def)

text \<open>
  Claim C7, as stated, fails for \<open>find_listener_arn\<close>: for an environment the platform
  does not have, it raises a \<open>DeploymentError\<close>.
\<close>

theorem find_listener_arn_raises_counterexample:
  "\<not> env_listed example_world ''ghost''
   \<and> fst (find_listener_arn ''ghost'' example_world)
       = Inl (DeploymentError ''Environment ghost not found'')"
proof -
  have "\<not> env_listed example_world ''ghost''"
    by (simp add: env_listed_def example_world_def example_platform_def)
  then show ?thesis
    using find_listener_arn_env_absent [of example_world "''ghost''"] by simp
qed

text \<open>
  Claim C7, amended. When the environment does not exist (no environment of that name
  that is not deleted), or exists with no load balancer tagged to it, the two resolvers
  differ. The lookup \<open>find_environment_load_balancer\<close> behind \<open>preserve_env_state\<close>
  returns "not found" (\<open>None\<close>) and \<open>preserve_env_state\<close> returns \<open>None\<close>, neither
  raising. \<open>find_listener_arn\<close> raises a \<open>DeploymentError\<close> that names the missing
  resource: the environment in the first case, the load balancer in the second.
\<close>

theorem not_found_outcomes:
  "(\<not> env_listed w env_name \<longrightarrow>
       fst (find_environment_load_balancer env_name w) = Inr None
     \<and> fst (preserve_env_state env_name project_name w) = Inr None
     \<and> fst (find_listener_arn env_name w)
         = Inl (DeploymentError (''Environment '' @ env_name @ '' not found'')))
   \<and> (env_listed w env_name
       \<and> (\<forall>lb \<in> set (load_balancers (remote w)). \<not> list_ex (env_tag env_name) (lb_Tags lb)) \<longrightarrow>
       fst (find_environment_load_balancer env_name w) = Inr None
     \<and> fst (preserve_env_state env_name project_name w) = Inr None
     \<and> fst (find_listener_arn env_name w)
         = Inl (DeploymentError (''No load balancer found for environment '' @ env_name)))"
proof (intro conjI impI)
  assume a: "\<not> env_listed w env_name"
  then have r: "result_of (find_environment_load_balancer env_name) w = Inr None"
    by (simp add: find_environment_load_balancer_none)
  then show "fst (find_environment_load_balancer env_name w) = Inr None"
    by (simp add: result_of_fst resolver_find_environment_load_balancer)
  from r show "fst (preserve_env_state env_name project_name w) = Inr None"
    by (simp add: preserve_env_state_none)
  from a show "fst (find_listener_arn env_name w)
         = Inl (DeploymentError (''Environment '' @ env_name @ '' not found''))"
    by (rule find_listener_arn_env_absent)
next
  assume a: "env_listed w env_name
       \<and> (\<forall>lb \<in> set (load_balancers (remote w)). \<not> list_ex (env_tag env_name) (lb_Tags lb))"
  then have r: "result_of (find_environment_load_balancer env_name) w = Inr None"
    by (simp add: find_environment_load_balancer_none)
  then show "fst (find_environment_load_balancer env_name w) = Inr None"
    by (simp add: result_of_fst resolver_find_environment_load_balancer)
  from r show "fst (preserve_env_state env_name project_name w) = Inr None"
    by (simp add: preserve_env_state_none)
  from a show "fst (find_listener_arn env_name w)
         = Inl (DeploymentError (''No load balancer found for environment '' @ env_name))"
    by (simp add: find_listener_arn_untagged)
qed

theorem not_found_outcomes_witness:
  "\<not> env_listed example_world ''ghost''
   \<and> fst (find_environment_load_balancer ''ghost'' example_world) = Inr None
   \<and> fst (preserve_env_state ''ghost'' ''proj'' example_world) = Inr None
   \<and> fst (find_listener_arn ''ghost'' example_world)
       = Inl (DeploymentError ''Environment ghost not found'')
   \<and> env_listed untagged_world ''prod''
   \<and> list_all (\<lambda>lb. \<not> list_ex (env_tag ''prod'') (lb_Tags lb)) (load_balancers (remote untagged_world))
   \<and> fst (find_environment_load_balancer ''prod'' untagged_world) = Inr None
   \<and> fst (preserve_env_state ''prod'' ''proj'' untagged_world) = Inr None
   \<and> fst (find_listener_arn ''prod'' untagged_world)
       = Inl (DeploymentError ''No load balancer found for environment prod'')"
proof -
  have a: "\<not> env_listed example_world ''ghost''"
    by (simp add: env_listed_def example_world_def example_platform_def)
  have b: "env_listed untagged_world ''prod''"
    by (simp add: env_listed_def untagged_world_def example_world_def example_platform_def)
  have c: "\<forall>lb \<in> set (load_balancers (remote untagged_world)).
             \<not> list_ex (env_tag ''prod'') (lb_Tags lb)"
    by (simp add: untagged_world_def example_world_def example_platform_def env_tag_def)
  from a not_found_outcomes [of example_world "''ghost''" "''proj''"]
  have 1: "fst (find_environment_load_balancer ''ghost'' example_world) = Inr None
     \<and> fst (preserve_env_state ''ghost'' ''proj'' example_world) = Inr None
     \<and> fst (find_listener_arn ''ghost'' example_world)
         = Inl (DeploymentError ''Environment ghost not found'')"
    by simp
  from b c not_found_outcomes [of untagged_world "''prod''" "''proj''"]
  have 2: "fst (find_environment_load_balancer ''prod'' untagged_world) = Inr None
     \<and> fst (preserve_env_state ''prod'' ''proj'' untagged_world) = Inr None
     \<and> fst (find_listener_arn ''prod'' untagged_world)
         = Inl (DeploymentError ''No load balancer found for environment prod'')"
    by simp
  from a b c 1 2 show ?thesis by (simp add: list_all_iff)
qed

subsection \<open>Deleting and creating rules\<close>

lemma bind_io_Inr:
  assumes "bind_io m f w = (Inr y, w')"
  obtains x w1 where "m w = (Inr x, w1)" and "f x w1 = (Inr y, w')"
  using assms by (auto simp: bind_io_def split: prod.splits sum.splits)

lemma bind_io_run: "m w = (Inr x, w1) \<Longrightarrow> bind_io m f w = f x w1"
  by (simp add: bind_io_def)

lemma logger_info_run:
  "logger_info msg w = (Inr (), w\<lparr>trace := trace w @ [Log INFO msg]\<rparr>)"
  by (simp add: logger_info_def emit_def)

lemma describe_rules_run:
  "describe_rules listener_arn w =
     (if listener_arn \<in> ListenerArn ` set (listeners (remote w))
      then Inr (map (\<lambda>r. r\<lparr>Actions := map redact_action (Actions r)\<rparr>)
                    (map (\<lambda>r. r\<lparr>IsDefault := False\<rparr>) (rules_of (remote w) listener_arn)
                     @ [default_rule listener_arn (default_actions (remote w) listener_arn)]))
      else Inl (ClientError ''ListenerNotFound''),
      w\<lparr>trace := trace w @ [Call (DescribeRules listener_arn)]\<rparr>)"
  by (simp add: describe_rules_def bind_io_def emit_def)

lemma delete_rule_run:
  "delete_rule rule_arn w =
     (if rule_arn \<in> RuleArn ` set (rules (remote w))
      then (Inr (), w\<lparr>remote := (remote w)\<lparr>rules := filter (\<lambda>r. RuleArn r \<noteq> rule_arn)
                                                           (rules (remote w))\<rparr>,
                       trace := trace w @ [Call (DeleteRule rule_arn)]\<rparr>)
      else (Inl (ClientError ''RuleNotFound''),
            w\<lparr>trace := trace w @ [Call (DeleteRule rule_arn)]\<rparr>))"
  by (simp add: delete_rule_def bind_io_def emit_def)

lemma modify_listener_run:
  "modify_listener listener_arn acts w =
     (if listener_arn \<in> ListenerArn ` set (listeners (remote w))
      then (Inr (), w\<lparr>remote := (remote w)\<lparr>default_actions :=
                         (default_actions (remote w))(listener_arn := acts)\<rparr>,
                       trace := trace w @ [Call (ModifyListener listener_arn acts)]\<rparr>)
      else (Inl (ClientError ''ListenerNotFound''),
            w\<lparr>trace := trace w @ [Call (ModifyListener listener_arn acts)]\<rparr>))"
  by (simp add: modify_listener_def bind_io_def emit_def)

lemma create_rule_run:
  "create_rule listener_arn priority conditions actions w =
     (if listener_arn \<notin> ListenerArn ` set (listeners (remote w))
      then (Inl (ClientError ''ListenerNotFound''),
            w\<lparr>trace := trace w @ [Call (CreateRule listener_arn priority conditions actions)]\<rparr>)
      else if string_of_nat priority \<in> Priority ` set (rules_of (remote w) listener_arn)
      then (Inl (ClientError ''PriorityInUse''),
            w\<lparr>trace := trace w @ [Call (CreateRule listener_arn priority conditions actions)]\<rparr>)
      else (Inr (), w\<lparr>remote := (remote w)\<lparr>
                         rules := rules (remote w)
                           @ [created_rule (remote w) listener_arn priority conditions actions],
                         next_rule_id := Suc (next_rule_id (remote w))\<rparr>,
                       trace := trace w @ [Call (CreateRule listener_arn priority conditions actions)]\<rparr>))"
  by (simp add: create_rule_def bind_io_def emit_def created_rule_def)

lemma removed_arns_simps [simp]:
  "removed_arns [] = []"
  "removed_arns (r # rs) = (if IsDefault r then removed_arns rs else RuleArn r # removed_arns rs)"
  by (simp_all add: removed_arns_def)

lemma filter_not_in_Cons:
  "filter (\<lambda>r. RuleArn r \<notin> set as) (filter (\<lambda>r. RuleArn r \<noteq> a) rs)
     = filter (\<lambda>r. RuleArn r \<notin> set (a # as)) rs"
  by (induction rs) auto

lemma remove_rules_success:
  "remove_rules rs n w = (Inr m, w') \<Longrightarrow>
     m = n + length (removed_arns rs)
   \<and> w' = w\<lparr>remote := (remote w)\<lparr>rules := filter (\<lambda>r. RuleArn r \<notin> set (removed_arns rs))
                                                   (rules (remote w))\<rparr>,
             trace := trace w @ map (\<lambda>a. Call (DeleteRule a)) (removed_arns rs)\<rparr>"
proof (induction rs arbitrary: n w)
  case Nil
  then show ?case by (simp add: return_def)
next
  case (Cons r rs)
  show ?case
  proof (cases "IsDefault r")
    case True
    with Cons show ?thesis by simp
  next
    case False
    with Cons.prems have run: "bind_io (delete_rule (RuleArn r)) (\<lambda>_. remove_rules rs (Suc n)) w = (Inr m, w')"
      by simp
    then obtain u w1 where d: "delete_rule (RuleArn r) w = (Inr u, w1)"
      and rest: "remove_rules rs (Suc n) w1 = (Inr m, w')"
      by (rule bind_io_Inr)
    from d have w1: "w1 = w\<lparr>remote := (remote w)\<lparr>rules := filter (\<lambda>x. RuleArn x \<noteq> RuleArn r)
                                                           (rules (remote w))\<rparr>,
                       trace := trace w @ [Call (DeleteRule (RuleArn r))]\<rparr>"
      by (simp add: delete_rule_run split: if_splits)
    from Cons.IH [OF rest] show ?thesis
      using False by (simp add: w1 filter_not_in_Cons)
  qed
qed

lemma remove_rules_runs:
  assumes "distinct (removed_arns rs)"
    and "set (removed_arns rs) \<subseteq> RuleArn ` set (rules (remote w))"
  shows "remove_rules rs n w =
     (Inr (n + length (removed_arns rs)),
      w\<lparr>remote := (remote w)\<lparr>rules := filter (\<lambda>r. RuleArn r \<notin> set (removed_arns rs))
                                                   (rules (remote w))\<rparr>,
        trace := trace w @ map (\<lambda>a. Call (DeleteRule a)) (removed_arns rs)\<rparr>)"
  using assms
proof (induction rs arbitrary: n w)
  case Nil
  then show ?case by (simp add: return_def)
next
  case (Cons r rs)
  show ?case
  proof (cases "IsDefault r")
    case True
    with Cons show ?thesis by simp
  next
    case False
    define w1 where "w1 = w\<lparr>remote := (remote w)\<lparr>rules := filter (\<lambda>x. RuleArn x \<noteq> RuleArn r)
                                                           (rules (remote w))\<rparr>,
                       trace := trace w @ [Call (DeleteRule (RuleArn r))]\<rparr>"
    from Cons.prems False have d: "delete_rule (RuleArn r) w = (Inr (), w1)"
      by (simp add: delete_rule_run w1_def)
    from Cons.prems False have dist: "distinct (removed_arns rs)"
      and notin: "RuleArn r \<notin> set (removed_arns rs)"
      and sub: "set (removed_arns rs) \<subseteq> RuleArn ` set (rules (remote w))"
      by simp_all
    have "set (removed_arns rs) \<subseteq> RuleArn ` set (rules (remote w1))"
    proof
      fix a assume a: "a \<in> set (removed_arns rs)"
      with sub obtain y where "y \<in> set (rules (remote w))" "RuleArn y = a" by auto
      moreover from a notin have "a \<noteq> RuleArn r" by auto
      ultimately have "y \<in> set (rules (remote w1))" "RuleArn y = a"
        by (simp_all add: w1_def)
      then show "a \<in> RuleArn ` set (rules (remote w1))"
        by (rule_tac x = y in image_eqI) simp_all
    qed
    from Cons.IH [OF dist this, of "Suc n"] show ?thesis
      proof -
      assume ih: "remove_rules rs (Suc n) w1 =
        (Inr (Suc n + length (removed_arns rs)),
         w1\<lparr>remote := (remote w1)\<lparr>rules := filter (\<lambda>r. RuleArn r \<notin> set (removed_arns rs))
                                                   (rules (remote w1))\<rparr>,
           trace := trace w1 @ map (\<lambda>a. Call (DeleteRule a)) (removed_arns rs)\<rparr>)"
      have "remove_rules (r # rs) n w = remove_rules rs (Suc n) w1"
        using False d by (simp add: bind_io_def)
      also note ih
      finally show ?thesis
        using False by (simp add: w1_def filter_not_in_Cons)
    qed
  qed
qed

lemma removed_arns_described:
  "removed_arns (map (\<lambda>r. r\<lparr>Actions := map redact_action (Actions r)\<rparr>)
                    (map (\<lambda>r. r\<lparr>IsDefault := False\<rparr>) rs @ [default_rule la acts]))
     = map RuleArn rs"
  by (induction rs) (simp_all add: removed_arns_def default_rule_def)

lemma describe_listeners_of_run:
  "describe_listeners_of lb_arn w =
     (if lb_arn \<in> LoadBalancerArn ` set (load_balancers (remote w))
      then Inr (filter (\<lambda>l. lis_LoadBalancerArn l = lb_arn) (listeners (remote w)))
      else Inl (ClientError ''LoadBalancerNotFound''),
      w\<lparr>trace := trace w @ [Call (DescribeListenersOf lb_arn)]\<rparr>)"
  by (simp add: describe_listeners_of_def bind_io_def emit_def)

lemma rules_of_rules_update [simp]:
  "rules_of (p\<lparr>rules := rs\<rparr>) la = filter (\<lambda>r. rule_ListenerArn r = la) rs"
  by (simp add: rules_of_def)

lemma rules_of_default_actions_update [simp]:
  "rules_of (p\<lparr>default_actions := d\<rparr>) la = rules_of p la"
  by (simp add: rules_of_def)

lemma rules_of_next_rule_id_update [simp]:
  "rules_of (p\<lparr>next_rule_id := n\<rparr>) la = rules_of p la"
  by (simp add: rules_of_def)

lemma created_rule_rules_update [simp]:
  "created_rule (p\<lparr>rules := rs\<rparr>) = created_rule p"
  by (simp add: created_rule_def fun_eq_iff)

lemma created_rule_default_actions_update [simp]:
  "created_rule (p\<lparr>default_actions := d\<rparr>) = created_rule p"
  by (simp add: created_rule_def fun_eq_iff)

lemma rules_of_after_removal [simp]:
  "filter (\<lambda>r. rule_ListenerArn r = la)
          (filter (\<lambda>r. RuleArn r \<notin> set (map RuleArn (rules_of p la))) (rules p)) = []"
  by (auto simp: rules_of_def filter_empty_conv)

lemma find_SomeD: "find P xs = Some x \<Longrightarrow> P x \<and> x \<in> set xs"
  by (induction xs) (auto split: if_splits)

lemma http_listener_exists:
  "http_listener_of p lba = Some h \<Longrightarrow> h \<in> ListenerArn ` set (listeners p)"
  by (auto simp: http_listener_of_def dest!: find_SomeD)

lemma no_rule_left [simp]:
  "{x \<in> set (rules p). RuleArn x \<notin> RuleArn ` set (rules_of p la) \<and> rule_ListenerArn x = la} = {}"
  by (auto simp: rules_of_def)

lemma apply_oidc_rules_runs:
  assumes la: "la \<in> ListenerArn ` set (listeners (remote w))"
    and lba: "lba \<in> LoadBalancerArn ` set (load_balancers (remote w))"
    and dist: "distinct (map RuleArn (rules_of (remote w) la))"
  shows "apply_oidc_rules la lba tg c domain w =
           (Inr (), w\<lparr>remote := rules_applied (remote w) la lba (auth_rule_actions c tg),
                       trace := trace w @ apply_events (remote w) la lba (auth_rule_actions c tg) domain\<rparr>)"
proof -
  define p where "p = remote w"
  define existing where "existing =
     map (\<lambda>r. r\<lparr>Actions := map redact_action (Actions r)\<rparr>)
         (map (\<lambda>r. r\<lparr>IsDefault := False\<rparr>) (rules_of p la) @ [default_rule la (default_actions p la)])"
  have ra: "removed_arns existing = map RuleArn (rules_of p la)"
    unfolding existing_def by (rule removed_arns_described)
  define w2 where "w2 = w\<lparr>trace := trace w @ [Log INFO ''Removing existing listener rules'',
                                               Call (DescribeRules la)]\<rparr>"
  have sub: "set (removed_arns existing) \<subseteq> RuleArn ` set (rules (remote w2))"
    by (auto simp: ra w2_def p_def rules_of_def)
  have d: "distinct (removed_arns existing)"
    using dist by (simp add: ra p_def)
  note rm = remove_rules_runs [OF d sub, of 0]
  have step1: "apply_oidc_rules la lba tg c domain w =
     bind_io (remove_rules existing 0) (\<lambda>rules_removed.
     bind_io (if rules_removed > 0
              then logger_info (''Removed '' @ string_of_nat rules_removed @ '' rules'')
              else logger_info ''No rules to remove'') (\<lambda>_.
     bind_io (logger_info ''Configuring OIDC authentication'') (\<lambda>_.
     bind_io (logger_info ''Setting default listener action to deny unauthorized access'') (\<lambda>_.
     bind_io (modify_listener la [deny_action]) (\<lambda>_.
     bind_io (logger_info ''Creating authentication rule'') (\<lambda>_.
     bind_io (create_rule la 1 all_paths (auth_rule_actions c tg)) (\<lambda>_.
     bind_io (logger_info ''Configuring HTTP to HTTPS redirect'') (\<lambda>_.
     bind_io (describe_listeners_of lba) (\<lambda>ls.
     bind_io (case find (\<lambda>l. Port l = 80) ls of
                Some http_listener \<Rightarrow>
                  modify_listener (ListenerArn http_listener) [redirect_action]
              | None \<Rightarrow> logger_info ''HTTP listener not found'') (\<lambda>_.
     logger_info (''OIDC authentication successfully configured for https://''
                  @ domain))))))))))) w2"
    unfolding apply_oidc_rules_def
    using la by (simp add: bind_io_def logger_info_run describe_rules_run w2_def existing_def p_def)
  show ?thesis
  proof (cases "find (\<lambda>l. Port l = 80) (filter (\<lambda>l. lis_LoadBalancerArn l = lba) (listeners p))")
    case None
    then have h: "http_listener_of p lba = None"
      by (simp add: http_listener_of_def)
    show ?thesis
      unfolding step1
      using la lba None h
      apply (simp add: bind_io_def [of "remove_rules existing 0"] rm ra)
      apply (simp add: bind_io_def logger_info_run modify_listener_run create_rule_run
          describe_listeners_of_run w2_def p_def rules_applied_def apply_events_def)
      done
  next
    case (Some l)
    then have h: "http_listener_of p lba = Some (ListenerArn l)"
      by (simp add: http_listener_of_def)
    from Some have l: "ListenerArn l \<in> ListenerArn ` set (listeners (remote w))"
      by (auto simp: p_def dest!: find_SomeD)
    show ?thesis
      unfolding step1
      using la lba Some h l
      apply (simp add: bind_io_def [of "remove_rules existing 0"] rm ra)
      apply (simp add: bind_io_def logger_info_run modify_listener_run create_rule_run
          describe_listeners_of_run w2_def p_def rules_applied_def apply_events_def)
      done
  qed
qed


lemma remove_rules_success_present:
  "remove_rules rs n w = (Inr m, w') \<Longrightarrow>
     distinct (removed_arns rs) \<and> set (removed_arns rs) \<subseteq> RuleArn ` set (rules (remote w))"
proof (induction rs arbitrary: n w)
  case Nil
  then show ?case by simp
next
  case (Cons r rs)
  show ?case
  proof (cases "IsDefault r")
    case True
    with Cons show ?thesis by simp
  next
    case False
    with Cons.prems have "bind_io (delete_rule (RuleArn r)) (\<lambda>_. remove_rules rs (Suc n)) w = (Inr m, w')"
      by simp
    then obtain u w1 where d: "delete_rule (RuleArn r) w = (Inr u, w1)"
      and rest: "remove_rules rs (Suc n) w1 = (Inr m, w')"
      by (rule bind_io_Inr)
    from d have here: "RuleArn r \<in> RuleArn ` set (rules (remote w))"
      and w1: "rules (remote w1) = filter (\<lambda>x. RuleArn x \<noteq> RuleArn r) (rules (remote w))"
      by (auto simp: delete_rule_run split: if_splits)
    from Cons.IH [OF rest] have dist: "distinct (removed_arns rs)"
      and sub: "set (removed_arns rs) \<subseteq> RuleArn ` set (rules (remote w1))"
      by simp_all
    from sub w1 have "RuleArn r \<notin> set (removed_arns rs)"
      and "set (removed_arns rs) \<subseteq> RuleArn ` set (rules (remote w))"
      by auto
    with False dist here show ?thesis by simp
  qed
qed

lemma canon_fields:
  assumes "canon w' = canon w"
  shows "listeners (remote w') = listeners (remote w)"
    and "load_balancers (remote w') = load_balancers (remote w)"
    and "environments (remote w') = environments (remote w)"
    and "target_groups (remote w') = target_groups (remote w)"
    and "certificates (remote w') = certificates (remote w)"
    and "os_environ w' = os_environ w"
    and "getpass_input w' = getpass_input w"
    and "project_name_of w' = project_name_of w"
proof -
  have "listeners (remote (canon w')) = listeners (remote (canon w))"
    "load_balancers (remote (canon w')) = load_balancers (remote (canon w))"
    "environments (remote (canon w')) = environments (remote (canon w))"
    "target_groups (remote (canon w')) = target_groups (remote (canon w))"
    "certificates (remote (canon w')) = certificates (remote (canon w))"
    "os_environ (canon w') = os_environ (canon w)"
    "getpass_input (canon w') = getpass_input (canon w)"
    "project_name_of (canon w') = project_name_of (canon w)"
    using assms by simp_all
  then show "listeners (remote w') = listeners (remote w)"
    and "load_balancers (remote w') = load_balancers (remote w)"
    and "environments (remote w') = environments (remote w)"
    and "target_groups (remote w') = target_groups (remote w)"
    and "certificates (remote w') = certificates (remote w)"
    and "os_environ w' = os_environ w"
    and "getpass_input w' = getpass_input w"
    and "project_name_of w' = project_name_of w"
    by (simp_all add: canon_def)
qed

lemma canon_describe_rules: "describe_rules la w = (r, w') \<Longrightarrow> canon w' = canon w"
  by (auto simp: describe_rules_run)

lemma canon_delete_rule: "delete_rule a w = (r, w') \<Longrightarrow> canon w' = canon w"
  by (auto simp: delete_rule_run canon_def split: if_splits)

lemma canon_modify_listener: "modify_listener la acts w = (r, w') \<Longrightarrow> canon w' = canon w"
  by (auto simp: modify_listener_run canon_def split: if_splits)

lemma canon_create_rule: "create_rule la n cs acts w = (r, w') \<Longrightarrow> canon w' = canon w"
  by (auto simp: create_rule_run canon_def split: if_splits)

lemma canon_logger_info: "logger_info msg w = (r, w') \<Longrightarrow> canon w' = canon w"
  by (auto simp: logger_info_run)

lemma canon_resolver: "resolver m \<Longrightarrow> m w = (r, w') \<Longrightarrow> canon w' = canon w"
  using resolver_run [of m w] by auto

lemma canon_remove_rules: "remove_rules rs n w = (r, w') \<Longrightarrow> canon w' = canon w"
proof (induction rs arbitrary: n w)
  case Nil
  then show ?case by (simp add: return_def)
next
  case (Cons x rs)
  show ?case
  proof (cases "IsDefault x")
    case True
    with Cons show ?thesis by simp
  next
    case False
    obtain r1 w1 where d: "delete_rule (RuleArn x) w = (r1, w1)" by (cases "delete_rule (RuleArn x) w")
    then have c1: "canon w1 = canon w" by (rule canon_delete_rule)
    show ?thesis
    proof (cases r1)
      case (Inl e)
      with Cons.prems False d c1 show ?thesis by (simp add: bind_io_def)
    next
      case (Inr u)
      with Cons.prems False d have "remove_rules rs (Suc n) w1 = (r, w')"
        by (simp add: bind_io_def)
      from Cons.IH [OF this] c1 show ?thesis by simp
    qed
  qed
qed

lemma apply_oidc_rules_success:
  assumes "apply_oidc_rules la lba tg c domain w = (Inr (), w')"
  shows "la \<in> ListenerArn ` set (listeners (remote w))
       \<and> lba \<in> LoadBalancerArn ` set (load_balancers (remote w))
       \<and> distinct (map RuleArn (rules_of (remote w) la))"
proof -
  obtain u1 u4 u5 u6 u7 u8 u9 u10 existing w1 w2 n w3 w4 w5 w6 w7 w8 w9 w10 ls w11 where
    s1: "logger_info ''Removing existing listener rules'' w = (Inr u1, w1)"
    and dr: "describe_rules la w1 = (Inr existing, w2)"
    and rr: "remove_rules existing 0 w2 = (Inr n, w3)"
    and s4: "(if n > 0 then logger_info (''Removed '' @ string_of_nat n @ '' rules'')
              else logger_info ''No rules to remove'') w3 = (Inr u4, w4)"
    and s5: "logger_info ''Configuring OIDC authentication'' w4 = (Inr u5, w5)"
    and s6: "logger_info ''Setting default listener action to deny unauthorized access'' w5 = (Inr u6, w6)"
    and s7: "modify_listener la [deny_action] w6 = (Inr u7, w7)"
    and s8: "logger_info ''Creating authentication rule'' w7 = (Inr u8, w8)"
    and s9: "create_rule la 1 all_paths (auth_rule_actions c tg) w8 = (Inr u9, w9)"
    and s10: "logger_info ''Configuring HTTP to HTTPS redirect'' w9 = (Inr u10, w10)"
    and dl: "describe_listeners_of lba w10 = (Inr ls, w11)"
  proof -
    from assms [unfolded apply_oidc_rules_def] show ?thesis
      by (elim bind_io_Inr) (rule that, assumption+)
  qed
  have c1: "canon w1 = canon w" using s1 by (rule canon_logger_info)
  have c2: "canon w2 = canon w" using canon_describe_rules [OF dr] c1 by simp
  have c3: "canon w3 = canon w" using canon_remove_rules [OF rr] c2 by simp
  have c4: "canon w4 = canon w" using s4 c3 by (auto dest: canon_logger_info split: if_splits)
  have c5: "canon w5 = canon w" using canon_logger_info [OF s5] c4 by simp
  have c6: "canon w6 = canon w" using canon_logger_info [OF s6] c5 by simp
  have c7: "canon w7 = canon w" using canon_modify_listener [OF s7] c6 by simp
  have c8: "canon w8 = canon w" using canon_logger_info [OF s8] c7 by simp
  have c9: "canon w9 = canon w" using canon_create_rule [OF s9] c8 by simp
  have c10: "canon w10 = canon w" using canon_logger_info [OF s10] c9 by simp
  from dr have "la \<in> ListenerArn ` set (listeners (remote w1))"
    by (simp add: describe_rules_run split: if_splits)
  then have la: "la \<in> ListenerArn ` set (listeners (remote w))"
    by (simp add: canon_fields [OF c1])
  from dl have "lba \<in> LoadBalancerArn ` set (load_balancers (remote w10))"
    by (simp add: describe_listeners_of_run split: if_splits)
  then have lba: "lba \<in> LoadBalancerArn ` set (load_balancers (remote w))"
    by (simp add: canon_fields [OF c10])
  from s1 have r1: "remote w1 = remote w" by (auto simp: logger_info_run)
  from dr la have "existing = map (\<lambda>r. r\<lparr>Actions := map redact_action (Actions r)\<rparr>)
         (map (\<lambda>r. r\<lparr>IsDefault := False\<rparr>) (rules_of (remote w) la)
          @ [default_rule la (default_actions (remote w) la)])"
    by (auto simp: describe_rules_run r1 canon_fields [OF c1] split: if_splits)
  then have "removed_arns existing = map RuleArn (rules_of (remote w) la)"
    by (simp only: removed_arns_described)
  with remove_rules_success_present [OF rr]
  have "distinct (map RuleArn (rules_of (remote w) la))" by simp
  with la lba show ?thesis by simp
qed

text \<open>A successful run of the second half is the run of \<open>apply_oidc_rules_runs\<close>.\<close>

lemma apply_oidc_rules_result:
  assumes "apply_oidc_rules la lba tg c domain w = (Inr (), w')"
  shows "w' = w\<lparr>remote := rules_applied (remote w) la lba (auth_rule_actions c tg),
                trace := trace w @ apply_events (remote w) la lba (auth_rule_actions c tg) domain\<rparr>"
proof -
  from apply_oidc_rules_success [OF assms]
  have "apply_oidc_rules la lba tg c domain w =
           (Inr (), w\<lparr>remote := rules_applied (remote w) la lba (auth_rule_actions c tg),
                       trace := trace w @ apply_events (remote w) la lba (auth_rule_actions c tg) domain\<rparr>)"
    by (intro apply_oidc_rules_runs) simp_all
  with assms show ?thesis by simp
qed

subsection \<open>The two halves of \<open>configure_oidc_auth\<close>\<close>

lemma canon_process [simp]:
  "os_environ (canon w) = os_environ w"
  "getpass_input (canon w) = getpass_input w"
  "project_name_of (canon w) = project_name_of w"
  by (simp_all add: canon_def)

lemma initial_client_secret_canon [simp]:
  "initial_client_secret (canon w) cs = initial_client_secret w cs"
  by (simp add: initial_client_secret_def environ_get_def)

lemma oidc_auth_config_canon [simp]:
  "oidc_auth_config (canon w) oc s = oidc_auth_config w oc s"
  by (simp add: oidc_auth_config_def environ_get_def)

text \<open>The first half with the world it reads the variables from held fixed.\<close>

lemma resolver_reading:
  assumes r: "\<And>w0. resolver (m w0)" and c: "\<And>w. m (canon w) = m w"
  shows "resolver (\<lambda>w. m w w)"
proof (rule resolverI)
  fix w
  show "m w w = (fst (m (canon w) (canon w)), w\<lparr>trace := trace w @ trace (snd (m (canon w) (canon w)))\<rparr>)"
    using resolver_run [OF r, of w w] by (simp add: c result_of_def events_of_def)
  show "mutations (trace (snd (m (canon w) (canon w)))) = []"
    using resolver_no_mutation [OF r, of w w] by (simp add: c events_of_def)
qed

lemma oidc_auth_config_canon_fun: "oidc_auth_config (canon w) = oidc_auth_config w"
  by (simp add: fun_eq_iff)

lemma resolver_resolve_oidc_target: "resolver (resolve_oidc_target config client_secret)"
proof -
  define m' where "m' = (\<lambda>(s0 :: string) (mk :: oidc_section \<Rightarrow> string \<Rightarrow> authenticate_oidc_config).
     (let env_name = application_environment config
      in case oidc config of
           None \<Rightarrow> raise (KeyError ''oidc'')
         | Some oc \<Rightarrow>
             bind_io (logger_info (''Configuring OIDC authentication for '' @ env_name)) (\<lambda>_.
             bind_io (if s0 = [] then get_client_secret None else return s0) (\<lambda>secret.
               if secret = [] then raise (DeploymentError ''OIDC client secret is required'')
               else
                 bind_io (find_listener_arn env_name) (\<lambda>(listener_arn, load_balancer_arn).
                   if listener_arn = []
                   then raise (DeploymentError ''Could not find HTTPS listener'')
                   else
                     bind_io (get_domain_from_listener listener_arn) (\<lambda>domain.
                     bind_io (find_target_group_arn load_balancer_arn) (\<lambda>target_group_arn.
                       return (mk oc secret, listener_arn,
                               load_balancer_arn, target_group_arn, domain))))))))"
  define m where "m = (\<lambda>w0. m' (initial_client_secret w0 client_secret) (oidc_auth_config w0))"
  have eq: "resolve_oidc_target config client_secret = (\<lambda>w. m w w)"
    by (simp add: fun_eq_iff resolve_oidc_target_def m_def m'_def Let_def split: option.splits)
  have "resolver (m' s0 mk)" for s0 mk
    unfolding m'_def Let_def
    by (auto intro!: resolver_intros resolver_get_client_secret resolver_find_listener_arn
          resolver_get_domain resolver_find_target_group_arn split: option.splits)
  then have r: "resolver (m w0)" for w0
    by (simp add: m_def)
  have c: "m (canon w) = m w" for w
    by (simp add: m_def oidc_auth_config_canon_fun)
  show ?thesis
    unfolding eq by (rule resolver_reading [where m = m]) (rule r, rule c)
qed

lemma aws_handler_Inr: "aws_handler m w = (Inr x, w') \<Longrightarrow> m w = (Inr x, w')"
  by (auto simp: aws_handler_def split: prod.splits sum.splits error.splits)

lemma return_Inr: "return x w = (Inr y, w') \<Longrightarrow> y = x \<and> w' = w"
  by (simp add: return_def)

lemma find_listener_arn_found:
  assumes "find_listener_arn env_name w = (Inr (la, lba), w')"
  shows "lba \<in> LoadBalancerArn ` set (load_balancers (remote w))
       \<and> (\<exists>l \<in> set (listeners (remote w)).
             ListenerArn l = la \<and> Port l = 443 \<and> lis_LoadBalancerArn l = lba)"
proof -
  define K3 where "K3 = (\<lambda>(lb::load_balancer) (ls::listener list). case find (\<lambda>l. Port l = 443) ls of
                     None \<Rightarrow>
                       bind_io (logger_info ''HTTPS not configured'') (\<lambda>_.
                       raise (DeploymentError
                                ''HTTPS listener not found. Run 'secure' command first.''))
                   | Some https_listener \<Rightarrow>
                       return (ListenerArn https_listener, LoadBalancerArn lb))"
  define K2 where "K2 = (\<lambda>env_lb. case env_lb of
               None \<Rightarrow>
                 bind_io (logger_info ''load balancer not found'') (\<lambda>_.
                 raise (DeploymentError (''No load balancer found for environment '' @ env_name)))
             | Some lb \<Rightarrow> bind_io (describe_listeners_of (LoadBalancerArn lb)) (K3 lb))"
  define K1 where "K1 = (\<lambda>envs::environment list. if envs = [] then
           bind_io (logger_info ''environment not found'') (\<lambda>_.
           raise (DeploymentError (''Environment '' @ env_name @ '' not found'')))
         else
           bind_io describe_load_balancers (\<lambda>lbs. bind_io (find_env_lb env_name lbs) K2))"
  from assms have "bind_io (logger_info ''Finding HTTPS listener'') (\<lambda>_.
       bind_io (describe_environments [env_name] False) K1) w = (Inr (la, lba), w')"
    unfolding find_listener_arn_def K1_def K2_def K3_def by (rule aws_handler_Inr)
  then obtain u1 w1 envs w2 where
    s1: "logger_info ''Finding HTTPS listener'' w = (Inr u1, w1)"
    and s2: "describe_environments [env_name] False w1 = (Inr envs, w2)"
    and r2: "K1 envs w2 = (Inr (la, lba), w')"
    by (elim bind_io_Inr)
  have ne: "envs \<noteq> []"
    using r2 by (auto simp: K1_def bind_io_def logger_info_run raise_def)
  with r2 have "bind_io describe_load_balancers (\<lambda>lbs. bind_io (find_env_lb env_name lbs) K2) w2
      = (Inr (la, lba), w')"
    by (simp add: K1_def)
  then obtain lbs w3 env_lb w4 where
    s3: "describe_load_balancers w2 = (Inr lbs, w3)"
    and s4: "find_env_lb env_name lbs w3 = (Inr env_lb, w4)"
    and r4: "K2 env_lb w4 = (Inr (la, lba), w')"
    by (elim bind_io_Inr)
  from r4 obtain lb where lb: "env_lb = Some lb"
    by (cases env_lb) (auto simp: K2_def bind_io_def logger_info_run raise_def)
  with r4 have "bind_io (describe_listeners_of (LoadBalancerArn lb)) (K3 lb) w4 = (Inr (la, lba), w')"
    by (simp add: K2_def)
  then obtain ls w5 where
    s5: "describe_listeners_of (LoadBalancerArn lb) w4 = (Inr ls, w5)"
    and r5: "K3 lb ls w5 = (Inr (la, lba), w')"
    by (elim bind_io_Inr)
  from r5 obtain l where l: "find (\<lambda>l. Port l = 443) ls = Some l"
    and la: "la = ListenerArn l" and lba: "lba = LoadBalancerArn lb"
    by (cases "find (\<lambda>l. Port l = 443) ls")
       (auto simp: K3_def bind_io_def logger_info_run raise_def return_def)
  have c1: "canon w1 = canon w" using s1 by (rule canon_logger_info)
  have c2: "canon w2 = canon w"
    using canon_resolver [OF resolver_describe_environments s2] c1 by simp
  have c3: "canon w3 = canon w"
    using canon_resolver [OF resolver_describe_load_balancers s3] c2 by simp
  have c4: "canon w4 = canon w"
    using canon_resolver [OF resolver_find_env_lb s4] c3 by simp
  from s5 have in_lb: "LoadBalancerArn lb \<in> LoadBalancerArn ` set (load_balancers (remote w4))"
    and ls: "ls = filter (\<lambda>l. lis_LoadBalancerArn l = LoadBalancerArn lb) (listeners (remote w4))"
    by (auto simp: describe_listeners_of_run split: if_splits)
  from find_SomeD [OF l] ls have "Port l = 443" "l \<in> set (listeners (remote w4))"
    "lis_LoadBalancerArn l = LoadBalancerArn lb"
    by auto
  with in_lb la lba show ?thesis
    by (auto simp: canon_fields [OF c4])
qed

lemma resolve_oidc_target_found:
  assumes "resolve_oidc_target config client_secret w = (Inr (ac, la, lba, tg, d), w')"
  shows "lba \<in> LoadBalancerArn ` set (load_balancers (remote w))
       \<and> (\<exists>l \<in> set (listeners (remote w)).
             ListenerArn l = la \<and> Port l = 443 \<and> lis_LoadBalancerArn l = lba)"
proof -
  define env_name where "env_name = application_environment config"
  from assms obtain oc where oc: "oidc config = Some oc"
    by (cases "oidc config") (auto simp: resolve_oidc_target_def raise_def)
  define K3 where "K3 = (\<lambda>secret (p :: string \<times> string). case p of (listener_arn, load_balancer_arn) \<Rightarrow>
                   if listener_arn = []
                   then raise (DeploymentError ''Could not find HTTPS listener'')
                   else
                     bind_io (get_domain_from_listener listener_arn) (\<lambda>domain.
                     bind_io (find_target_group_arn load_balancer_arn) (\<lambda>target_group_arn.
                       return (oidc_auth_config w oc secret, listener_arn,
                               load_balancer_arn, target_group_arn, domain))))"
  define K2 where "K2 = (\<lambda>secret :: string.
               if secret = [] then raise (DeploymentError ''OIDC client secret is required'')
               else bind_io (find_listener_arn env_name) (K3 secret))"
  define S where "S = (if initial_client_secret w client_secret = []
                      then get_client_secret None
                      else return (initial_client_secret w client_secret))"
  from assms oc have "bind_io (logger_info (''Configuring OIDC authentication for '' @ env_name)) (\<lambda>_.
             bind_io S K2) w = (Inr (ac, la, lba, tg, d), w')"
    unfolding resolve_oidc_target_def K2_def K3_def S_def env_name_def
    by (simp add: Let_def case_prod_unfold)
  then obtain u1 w1 secret w2 where
    s1: "logger_info (''Configuring OIDC authentication for '' @ env_name) w = (Inr u1, w1)"
    and s2: "S w1 = (Inr secret, w2)"
    and r2: "K2 secret w2 = (Inr (ac, la, lba, tg, d), w')"
    by (elim bind_io_Inr)
  have ne: "secret \<noteq> []"
    using r2 by (auto simp: K2_def raise_def)
  with r2 have "bind_io (find_listener_arn env_name) (K3 secret) w2 = (Inr (ac, la, lba, tg, d), w')"
    by (simp add: K2_def)
  then obtain p w3 where
    s3: "find_listener_arn env_name w2 = (Inr p, w3)"
    and r3: "K3 secret p w3 = (Inr (ac, la, lba, tg, d), w')"
    by (elim bind_io_Inr)
  obtain la' lba' where p: "p = (la', lba')" by (cases p)
  have ne': "la' \<noteq> []"
    using r3 by (auto simp: K3_def p raise_def)
  with r3 have "bind_io (get_domain_from_listener la') (\<lambda>domain.
                     bind_io (find_target_group_arn lba') (\<lambda>target_group_arn.
                       return (oidc_auth_config w oc secret, la',
                               lba', target_group_arn, domain))) w3 = (Inr (ac, la, lba, tg, d), w')"
    by (simp add: K3_def p)
  then have eq: "la' = la" "lba' = lba"
    by (auto elim!: bind_io_Inr simp: return_def)
  have c1: "canon w1 = canon w" using s1 by (rule canon_logger_info)
  have "resolver S"
    unfolding S_def by (simp add: resolver_get_client_secret resolver_return)
  from canon_resolver [OF this s2] c1 have c2: "canon w2 = canon w" by simp
  from find_listener_arn_found [OF s3 [unfolded p eq]]
  show ?thesis
    by (simp add: canon_fields [OF c2])
qed

lemma configure_oidc_auth_result:
  assumes "configure_oidc_auth config client_secret w = (Inr (), w')"
  obtains ac la lba tg d where
    "result_of (resolve_oidc_target config client_secret) w = Inr (ac, la, lba, tg, d)"
    and "w' = w\<lparr>remote := rules_applied (remote w) la lba (auth_rule_actions ac tg),
                 trace := trace w @ events_of (resolve_oidc_target config client_secret) w
                          @ apply_events (remote w) la lba (auth_rule_actions ac tg) d\<rparr>"
    and "distinct (map RuleArn (rules_of (remote w) la))"
proof -
  let ?R = "resolve_oidc_target config client_secret"
  from assms have "bind_io ?R
         (\<lambda>(auth_config, listener_arn, load_balancer_arn, target_group_arn, domain).
            apply_oidc_rules listener_arn load_balancer_arn target_group_arn auth_config domain) w
       = (Inr (), w')"
    unfolding configure_oidc_auth_def by (rule aws_handler_Inr)
  then obtain x w1 where r: "?R w = (Inr x, w1)"
    and a: "(case x of (auth_config, listener_arn, load_balancer_arn, target_group_arn, domain) \<Rightarrow>
            apply_oidc_rules listener_arn load_balancer_arn target_group_arn auth_config domain) w1
       = (Inr (), w')"
    by (elim bind_io_Inr)
  obtain ac la lba tg d where x: "x = (ac, la, lba, tg, d)" by (cases x)
  from resolver_run [OF resolver_resolve_oidc_target, of config client_secret w] r
  have res: "result_of ?R w = Inr x" and w1: "w1 = w\<lparr>trace := trace w @ events_of ?R w\<rparr>"
    by simp_all
  from a x have a': "apply_oidc_rules la lba tg ac d w1 = (Inr (), w')" by simp
  from apply_oidc_rules_result [OF a'] have
    "w' = w\<lparr>remote := rules_applied (remote w) la lba (auth_rule_actions ac tg),
                 trace := trace w @ events_of ?R w
                          @ apply_events (remote w) la lba (auth_rule_actions ac tg) d\<rparr>"
    by (simp add: w1)
  moreover from apply_oidc_rules_success [OF a']
  have "distinct (map RuleArn (rules_of (remote w) la))" by (simp add: w1)
  ultimately show ?thesis using res x that by simp
qed

lemma configure_oidc_auth_runs:
  assumes res: "result_of (resolve_oidc_target config client_secret) w = Inr (ac, la, lba, tg, d)"
    and dist: "distinct (map RuleArn (rules_of (remote w) la))"
  shows "configure_oidc_auth config client_secret w =
           (Inr (), w\<lparr>remote := rules_applied (remote w) la lba (auth_rule_actions ac tg),
                 trace := trace w @ events_of (resolve_oidc_target config client_secret) w
                          @ apply_events (remote w) la lba (auth_rule_actions ac tg) d\<rparr>)"
proof -
  let ?R = "resolve_oidc_target config client_secret"
  define w1 where "w1 = w\<lparr>trace := trace w @ events_of ?R w\<rparr>"
  from resolver_run [OF resolver_resolve_oidc_target, of config client_secret w] res
  have r: "?R w = (Inr (ac, la, lba, tg, d), w1)"
    by (simp add: w1_def)
  from resolve_oidc_target_found [OF r]
  have "la \<in> ListenerArn ` set (listeners (remote w1))"
    "lba \<in> LoadBalancerArn ` set (load_balancers (remote w1))"
    "distinct (map RuleArn (rules_of (remote w1) la))"
    using dist by (auto simp: w1_def)
  from apply_oidc_rules_runs [OF this, of tg ac d]
  have "apply_oidc_rules la lba tg ac d w1 =
           (Inr (), w\<lparr>remote := rules_applied (remote w) la lba (auth_rule_actions ac tg),
                 trace := trace w @ events_of ?R w
                          @ apply_events (remote w) la lba (auth_rule_actions ac tg) d\<rparr>)"
    by (simp add: w1_def)
  with r show ?thesis
    by (simp add: configure_oidc_auth_def aws_handler_def bind_io_def)
qed

lemma string_of_nat_1 [simp]: "string_of_nat 1 = ''1''"
  by code_simp

lemma string_of_nat_Suc_0 [simp]: "string_of_nat (Suc 0) = ''1''"
  by code_simp

lemmas example_defs =
  example_config_def example_world_def example_platform_def http_world_def

lemmas run_defs =
  resolve_oidc_target_def bind_io_def logger_info_def emit_def initial_client_secret_def
  truthy_def return_def raise_def find_listener_arn_def aws_handler_def
  describe_environments_def describe_load_balancers_def describe_tags_def first_item_def
  env_tag_def py_lower_def describe_listeners_of_def get_domain_from_listener_def
  describe_listeners_def describe_certificate_def py_replace_star_def
  find_target_group_arn_def describe_target_groups_def oidc_auth_config_def environ_get_def
  Let_def

lemma example_target:
  "fst (resolve_oidc_target example_config (Some ''s3cret'') example_world)
     = Inr (oidc_auth_config example_world (the (oidc example_config)) ''s3cret'',
            ''l443'', ''lb1'', ''tg1'', ''proj.example.com'')"
  by (simp add: example_defs run_defs)

lemma http_target:
  "fst (resolve_oidc_target example_config (Some ''s3cret'') http_world)
     = Inr (oidc_auth_config example_world (the (oidc example_config)) ''s3cret'',
            ''l443'', ''lb1'', ''tg1'', ''proj.example.com'')"
  by (simp add: example_defs run_defs)

lemma rules_of_rules_applied [simp]:
  "rules_of (rules_applied p la lba acts) la = [created_rule p la 1 all_paths acts]"
  by (auto simp: rules_applied_def created_rule_def rules_of_def filter_empty_conv)

lemma default_actions_rules_applied:
  "default_actions (rules_applied p la lba acts) =
     (case http_listener_of p lba of
        None \<Rightarrow> (default_actions p)(la := [deny_action])
      | Some h \<Rightarrow> ((default_actions p)(la := [deny_action]))(h := [redirect_action]))"
  by (simp add: rules_applied_def)

lemma listeners_rules_applied [simp]:
  "listeners (rules_applied p la lba acts) = listeners p"
  by (simp add: rules_applied_def)

lemma http_listener_port:
  "http_listener_of p lba = Some h \<Longrightarrow> \<exists>l \<in> set (listeners p). ListenerArn l = h \<and> Port l = 80"
  by (auto simp: http_listener_of_def dest!: find_SomeD)

lemma http_listener_differs:
  assumes "distinct (map ListenerArn (listeners p))"
    and "l \<in> set (listeners p)" and "Port l = 443"
    and "http_listener_of p lba = Some h"
  shows "h \<noteq> ListenerArn l"
proof
  assume eq: "h = ListenerArn l"
  from http_listener_port [OF assms(4)] obtain l' where
    l': "l' \<in> set (listeners p)" "ListenerArn l' = h" "Port l' = 80" by blast
  from assms(1) have "inj_on ListenerArn (set (listeners p))" by (simp add: distinct_map)
  with l' assms(2) eq have "l' = l" by (auto dest: inj_onD)
  with l' assms(3) show False by simp
qed

lemma in_set_apply_events_delete:
  "r \<in> set (rules_of p la) \<Longrightarrow> Call (DeleteRule (RuleArn r)) \<in> set (apply_events p la lba acts d)"
  by (auto simp: apply_events_def)

lemma http_run:
  "fst (configure_oidc_auth example_config (Some ''s3cret'') http_world) = Inr ()"
proof -
  have "result_of (resolve_oidc_target example_config (Some ''s3cret'')) http_world
     = Inr (oidc_auth_config example_world (the (oidc example_config)) ''s3cret'',
            ''l443'', ''lb1'', ''tg1'', ''proj.example.com'')"
    using http_target by (simp add: result_of_fst [OF resolver_resolve_oidc_target])
  from configure_oidc_auth_runs [OF this] show ?thesis
    by (simp add: example_defs rules_of_def)
qed

subsection \<open>The listener after \<open>configure_oidc_auth\<close>\<close>

text \<open>
  Claim C5. Let a run of \<open>configure_oidc_auth\<close> succeed, with \<open>la\<close> the listener, \<open>lba\<close> the
  load balancer and \<open>tg\<close> the target group its first half resolved, on a platform whose
  listeners have different ARNs. Then \<open>la\<close> is a listener of \<open>lba\<close> on port 443, its
  default action is the fixed 503 response "Unauthorized Access", the run has called
  \<open>delete_rule\<close> on every rule the listener had before, and the listener now has exactly
  one rule: the one just created, of priority 1, with the one condition that the path
  matches \<open>/*\<close> and the two actions authenticate-oidc (order 1) and forward to \<open>tg\<close>
  (order 2).
\<close>

theorem configure_oidc_auth_postcondition:
  assumes run: "configure_oidc_auth config client_secret w = (Inr (), w')"
    and target: "fst (resolve_oidc_target config client_secret w)
                   = Inr (auth_config, la, lba, tg, domain)"
    and arns: "distinct (map ListenerArn (listeners (remote w)))"
  shows "(\<exists>l \<in> set (listeners (remote w')).
            ListenerArn l = la \<and> Port l = 443 \<and> lis_LoadBalancerArn l = lba)
       \<and> default_actions (remote w') la =
           [\<lparr>act_config = FixedResponseConfig ''Unauthorized Access'' ''503'' ''text/plain'',
             act_Order = None\<rparr>]
       \<and> (\<forall>r \<in> set (rules_of (remote w) la).
             Call (DeleteRule (RuleArn r)) \<in> set (drop (length (trace w)) (trace w')))
       \<and> (\<exists>rule. rules_of (remote w') la = [rule]
             \<and> rule = created_rule (remote w) la 1 all_paths (auth_rule_actions auth_config tg)
             \<and> Priority rule = ''1''
             \<and> Conditions rule = [\<lparr>cond_Field = ''path-pattern'', cond_Values = [''/*'']\<rparr>]
             \<and> map action_Type (Actions rule) = [''authenticate-oidc'', ''forward'']
             \<and> map act_Order (Actions rule) = [Some 1, Some 2]
             \<and> map act_config (Actions rule)
                 = [AuthenticateOidcConfig auth_config, ForwardConfig tg])"
proof -
  let ?R = "resolve_oidc_target config client_secret"
  let ?acts = "auth_rule_actions auth_config tg"
  from target have res: "result_of ?R w = Inr (auth_config, la, lba, tg, domain)"
    by (simp add: result_of_fst [OF resolver_resolve_oidc_target])
  from configure_oidc_auth_result [OF run] res
  have w': "w' = w\<lparr>remote := rules_applied (remote w) la lba ?acts,
                 trace := trace w @ events_of ?R w
                          @ apply_events (remote w) la lba ?acts domain\<rparr>"
    by auto
  from resolver_run [OF resolver_resolve_oidc_target, of config client_secret w] res
  have "?R w = (Inr (auth_config, la, lba, tg, domain), w\<lparr>trace := trace w @ events_of ?R w\<rparr>)"
    by simp
  from resolve_oidc_target_found [OF this] obtain l where
    l: "l \<in> set (listeners (remote w))" "ListenerArn l = la" "Port l = 443"
       "lis_LoadBalancerArn l = lba"
    by blast
  have 1: "\<exists>l \<in> set (listeners (remote w')).
            ListenerArn l = la \<and> Port l = 443 \<and> lis_LoadBalancerArn l = lba"
    using l by (auto simp: w')
  have 2: "default_actions (remote w') la = [deny_action]"
  proof (cases "http_listener_of (remote w) lba")
    case None
    then show ?thesis by (simp add: w' default_actions_rules_applied)
  next
    case (Some h)
    from http_listener_differs [OF arns l(1) l(3) Some] l(2) have "h \<noteq> la" by simp
    with Some show ?thesis by (simp add: w' default_actions_rules_applied)
  qed
  have 3: "\<forall>r \<in> set (rules_of (remote w) la).
             Call (DeleteRule (RuleArn r)) \<in> set (drop (length (trace w)) (trace w'))"
    by (simp add: w' in_set_apply_events_delete)
  have 4: "rules_of (remote w') la = [created_rule (remote w) la 1 all_paths ?acts]"
    by (simp add: w')
  have 5: "Priority (created_rule (remote w) la 1 all_paths ?acts) = ''1''"
    "Conditions (created_rule (remote w) la 1 all_paths ?acts)
       = [\<lparr>cond_Field = ''path-pattern'', cond_Values = [''/*'']\<rparr>]"
    "map action_Type (Actions (created_rule (remote w) la 1 all_paths ?acts))
       = [''authenticate-oidc'', ''forward'']"
    "map act_Order (Actions (created_rule (remote w) la 1 all_paths ?acts)) = [Some 1, Some 2]"
    "map act_config (Actions (created_rule (remote w) la 1 all_paths ?acts))
       = [AuthenticateOidcConfig auth_config, ForwardConfig tg]"
    by (simp_all add: created_rule_def all_paths_def auth_rule_actions_def)
  from 1 2 3 4 5 show ?thesis
    by (simp add: deny_action_def)
qed

theorem configure_oidc_auth_postcondition_witness:
  "fst (configure_oidc_auth example_config (Some ''s3cret'') http_world) = Inr ()
   \<and> default_actions
        (remote (snd (configure_oidc_auth example_config (Some ''s3cret'') http_world))) ''l443''
       = [\<lparr>act_config = FixedResponseConfig ''Unauthorized Access'' ''503'' ''text/plain'',
           act_Order = None\<rparr>]
   \<and> Call (DeleteRule ''r1'')
       \<in> set (trace (snd (configure_oidc_auth example_config (Some ''s3cret'') http_world)))
   \<and> map rule_content
        (rules_of (remote (snd (configure_oidc_auth example_config (Some ''s3cret'') http_world)))
           ''l443'')
       = [(''1'', [\<lparr>cond_Field = ''path-pattern'', cond_Values = [''/*'']\<rparr>],
           auth_rule_actions
             (oidc_auth_config example_world (the (oidc example_config)) ''s3cret'') ''tg1'')]"
proof -
  let ?w' = "snd (configure_oidc_auth example_config (Some ''s3cret'') http_world)"
  have run: "configure_oidc_auth example_config (Some ''s3cret'') http_world = (Inr (), ?w')"
    using http_run by (simp add: prod_eq_iff)
  have arns: "distinct (map ListenerArn (listeners (remote http_world)))"
    by (simp add: example_defs)
  have r1: "\<lparr>RuleArn = ''r1'', rule_ListenerArn = ''l443'', Priority = ''5'',
          Conditions = [], Actions = [], IsDefault = False\<rparr>
        \<in> set (rules_of (remote http_world) ''l443'')"
    by (simp add: example_defs rules_of_def)
  have tr: "trace http_world = []" by (simp add: example_defs)
  from configure_oidc_auth_postcondition [OF run http_target arns] r1 tr http_run
  show ?thesis
    by (auto simp: rule_content_def created_rule_def all_paths_def)
qed

end
